theory Spec2Isabelle
  imports Main "HOL-Library.Word"
begin

section \<open>Values of the host language\<close>

text \<open>
  The exceptions that can leave an endpoint of
  \<^verbatim>\<open>routers/reports_routes/disbursement_voucher.py\<close>:
  \<^item> \<open>HTTPException status_code detail\<close>, raised by the module itself (the 404 of the
    get endpoint) and by the authentication collaborators;
  \<^item> \<open>ValueError\<close>, raised by \<^verbatim>\<open>datetime.date(year, month, day)\<close> when a component
    is out of range;
  \<^item> \<open>OverflowError\<close>, raised by \<^verbatim>\<open>datetime.date(year, month, day)\<close> when a
    component does not fit a C int;
  \<^item> \<open>InvalidRequestError\<close>, raised by \<^verbatim>\<open>Session.refresh\<close> when the row of the
    instance is no longer in the table.
\<close>

datatype error = HTTPException nat string | ValueError | OverflowError | InvalidRequestError

text \<open>
  What the web framework sends for an exception that leaves an endpoint: an
  \<^verbatim>\<open>HTTPException\<close> goes out with its own status code, any other exception is an
  unhandled server error (500). The module registers no exception handler of its own.
\<close>

fun response_status :: "error \<Rightarrow> nat" where
  "response_status (HTTPException status_code detail) = status_code"
| "response_status ValueError = 500"
| "response_status OverflowError = 500"
| "response_status InvalidRequestError = 500"

definition HTTP_404_NOT_FOUND :: nat where
  "HTTP_404_NOT_FOUND = 404"

text \<open>
  \<^verbatim>\<open>datetime.date\<close>: the proleptic Gregorian calendar, years 1 to 9999. The constructor
  of CPython first converts its three arguments to C ints, and raises
  \<^verbatim>\<open>OverflowError\<close> when one of them does not fit; it then checks the year, the month
  and the day against the length of the month, and raises \<^verbatim>\<open>ValueError\<close> at the first
  component out of range.
\<close>

datatype date = Date (date_year: int) (date_month: int) (date_day: int)

definition is_leap :: "int \<Rightarrow> bool" where
  "is_leap y = (y mod 4 = 0 \<and> (y mod 100 \<noteq> 0 \<or> y mod 400 = 0))"

definition days_in_month :: "int \<Rightarrow> int \<Rightarrow> int" where
  "days_in_month y m =
     (if m = 2 \<and> is_leap y then 29
      else if m = 2 then 28
      else if m = 4 \<or> m = 6 \<or> m = 9 \<or> m = 11 then 30
      else 31)"

definition fits_c_int :: "int \<Rightarrow> bool" where
  "fits_c_int n = (- 2147483648 \<le> n \<and> n \<le> 2147483647)"

definition datetime_date :: "int \<Rightarrow> int \<Rightarrow> int \<Rightarrow> error + date" where
  "datetime_date y m d =
     (if \<not> (fits_c_int y \<and> fits_c_int m \<and> fits_c_int d) then Inl OverflowError
      else if \<not> (1 \<le> y \<and> y \<le> 9999) then Inl ValueError
      else if \<not> (1 \<le> m \<and> m \<le> 12) then Inl ValueError
      else if \<not> (1 \<le> d \<and> d \<le> days_in_month y m) then Inl ValueError
      else Inr (Date y m d))"

text \<open>
  \<^verbatim>\<open>datetime.time()\<close> is midnight; \<^verbatim>\<open>datetime.datetime.combine(d, t)\<close> is the instant
  of day \<open>d\<close> at time \<open>t\<close>, and \<^verbatim>\<open>.date()\<close> reads the day back.
\<close>

datatype time = Time (time_hour: nat) (time_minute: nat) (time_second: nat)
  (time_microsecond: nat)

datatype datetime = Datetime (datetime_day: date) (datetime_time: time)

definition datetime_time0 :: time where
  "datetime_time0 = Time 0 0 0 0"

definition datetime_combine :: "date \<Rightarrow> time \<Rightarrow> datetime" where
  "datetime_combine d t = Datetime d t"

text \<open>
  A Python \<^verbatim>\<open>float\<close> is an IEEE-754 double. The module only copies amounts between
  payloads and rows, so a float is carried as its 64-bit pattern.
\<close>

type_synonym pyfloat = "64 word"

section \<open>Payloads\<close>

record DisbursementVoucherEntryData =
  ed_receipt :: "string option"
  ed_particulars :: string
  ed_unit :: string
  ed_quantity :: pyfloat
  ed_unitPrice :: pyfloat

record DisbursementVoucherAccountingEntryData =
  ad_uacs_code :: string
  ad_accountTitle :: string
  ad_debit :: pyfloat
  ad_credit :: pyfloat

text \<open>
  Modelled from the spec: the enumeration \<^verbatim>\<open>ReportStatus\<close> is declared in
  \<^verbatim>\<open>centralserver.internals.models.reports.report_status\<close>, which is not among the
  sources; the spec names its lifecycle as draft, certified, approved, paid.
\<close>

datatype ReportStatus = Draft | Certified | Approved | Paid

record DisbursementVoucherCreateRequest =
  rq_schoolId :: int
  rq_date :: date
  rq_modeOfPayment :: string
  rq_payee :: string
  rq_tinOrEmployeeNo :: "string option"
  rq_responsibilityCenter :: "string option"
  rq_orsbursNo :: "string option"
  rq_address :: "string option"
  rq_linkedLiquidationCategory :: "string option"
  rq_certifiedCashAvailable :: bool
  rq_certifiedSupportingDocsComplete :: bool
  rq_certifiedSubjectToDebitAccount :: bool
  rq_approvedBy :: "string option"
  rq_checkNo :: "string option"
  rq_bankNameAndAccountNo :: "string option"
  rq_adaNo :: "string option"
  rq_jevNo :: "string option"
  rq_entries :: "DisbursementVoucherEntryData list"
  rq_accountingEntries :: "DisbursementVoucherAccountingEntryData list"
  rq_certifiedBy :: "string list"

record DisbursementVoucherResponse =
  rs_parent :: date
  rs_date :: date
  rs_schoolId :: int
  rs_modeOfPayment :: string
  rs_payee :: string
  rs_tinOrEmployeeNo :: "string option"
  rs_responsibilityCenter :: "string option"
  rs_orsbursNo :: "string option"
  rs_address :: "string option"
  rs_linkedLiquidationCategory :: "string option"
  rs_reportStatus :: ReportStatus
  rs_certifiedCashAvailable :: bool
  rs_certifiedSupportingDocsComplete :: bool
  rs_certifiedSubjectToDebitAccount :: bool
  rs_approvedBy :: "string option"
  rs_checkNo :: "string option"
  rs_bankNameAndAccountNo :: "string option"
  rs_adaNo :: "string option"
  rs_jevNo :: "string option"
  rs_entries :: "DisbursementVoucherEntryData list"
  rs_accountingEntries :: "DisbursementVoucherAccountingEntryData list"
  rs_certifiedBy :: "string list"

section \<open>Rows and the store\<close>

text \<open>
  Modelled from the spec: the ORM classes \<^verbatim>\<open>DisbursementVoucher\<close>,
  \<^verbatim>\<open>DisbursementVoucherEntry\<close>, \<^verbatim>\<open>DisbursementVoucherAccountingEntry\<close> and
  \<^verbatim>\<open>DisbursementVoucherCertifiedBy\<close> are declared in
  \<^verbatim>\<open>centralserver.internals.models.reports.disbursement_voucher\<close>, which is not among
  the sources. Their columns are the attributes the endpoints read and write. The two
  entry classes are given their date as a \<^verbatim>\<open>datetime\<close> (the day at midnight), the
  certifier class as a \<^verbatim>\<open>date\<close>.
\<close>

record DisbursementVoucher =
  dv_parent :: date
  dv_date :: date
  dv_schoolId :: int
  dv_modeOfPayment :: string
  dv_payee :: string
  dv_tinOrEmployeeNo :: "string option"
  dv_responsibilityCenter :: "string option"
  dv_orsbursNo :: "string option"
  dv_address :: "string option"
  dv_linkedLiquidationCategory :: "string option"
  dv_reportStatus :: ReportStatus
  dv_certifiedCashAvailable :: bool
  dv_certifiedSupportingDocsComplete :: bool
  dv_certifiedSubjectToDebitAccount :: bool
  dv_approvedBy :: "string option"
  dv_checkNo :: "string option"
  dv_bankNameAndAccountNo :: "string option"
  dv_adaNo :: "string option"
  dv_jevNo :: "string option"

record DisbursementVoucherEntry =
  en_parent :: date
  en_date :: datetime
  en_schoolId :: int
  en_receipt :: "string option"
  en_particulars :: string
  en_unit :: string
  en_quantity :: pyfloat
  en_unitPrice :: pyfloat

record DisbursementVoucherAccountingEntry =
  ae_parent :: date
  ae_date :: datetime
  ae_schoolId :: int
  ae_uacs_code :: string
  ae_accountTitle :: string
  ae_debit :: pyfloat
  ae_credit :: pyfloat

record DisbursementVoucherCertifiedBy =
  cb_parent :: date
  cb_date :: date
  cb_schoolId :: int
  cb_user :: string

text \<open>
  The four tables, each in the order the store returns its rows. Nothing here says
  that a key occurs once: the module sets no uniqueness constraint.
\<close>

record database =
  tbl_vouchers :: "DisbursementVoucher list"
  tbl_entries :: "DisbursementVoucherEntry list"
  tbl_accounting_entries :: "DisbursementVoucherAccountingEntry list"
  tbl_certified_by :: "DisbursementVoucherCertifiedBy list"

text \<open>
  Modelled from the spec: the session of \<^verbatim>\<open>centralserver.internals.db_handler\<close>
  (not among the sources) is one transaction over the store, acquired at the start of
  a request and released at its end. \<open>committed\<close> is what is persisted; \<open>txn\<close> is the
  store as this transaction sees it, with its own pending writes. \<^verbatim>\<open>add\<close>,
  \<^verbatim>\<open>delete\<close> and attribute assignment write to \<open>txn\<close>; only \<^verbatim>\<open>commit\<close> persists. A
  request that raises releases the session without a commit. Constraints of the schema
  are declared with the ORM classes; \<^verbatim>\<open>commit\<close> is taken to succeed.
\<close>

record session =
  committed :: database
  txn :: database

definition get_db_session :: "database \<Rightarrow> session" where
  "get_db_session d = \<lparr>committed = d, txn = d\<rparr>"

definition db_commit :: "session \<Rightarrow> session" where
  "db_commit db = db\<lparr>committed := txn db\<rparr>"

definition db_add_voucher :: "DisbursementVoucher \<Rightarrow> session \<Rightarrow> nat \<times> session" where
  "db_add_voucher v db =
     (length (tbl_vouchers (txn db)),
      db\<lparr>txn := (txn db)\<lparr>tbl_vouchers := tbl_vouchers (txn db) @ [v]\<rparr>\<rparr>)"

definition db_add_entry :: "DisbursementVoucherEntry \<Rightarrow> session \<Rightarrow> session" where
  "db_add_entry e db = db\<lparr>txn := (txn db)\<lparr>tbl_entries := tbl_entries (txn db) @ [e]\<rparr>\<rparr>"

definition db_add_accounting_entry ::
  "DisbursementVoucherAccountingEntry \<Rightarrow> session \<Rightarrow> session" where
  "db_add_accounting_entry e db =
     db\<lparr>txn := (txn db)\<lparr>tbl_accounting_entries := tbl_accounting_entries (txn db) @ [e]\<rparr>\<rparr>"

definition db_add_certified_by :: "DisbursementVoucherCertifiedBy \<Rightarrow> session \<Rightarrow> session" where
  "db_add_certified_by c db =
     db\<lparr>txn := (txn db)\<lparr>tbl_certified_by := tbl_certified_by (txn db) @ [c]\<rparr>\<rparr>"

text \<open>Deleting an instance removes its one row.\<close>

definition db_delete_entry :: "DisbursementVoucherEntry \<Rightarrow> session \<Rightarrow> session" where
  "db_delete_entry e db = db\<lparr>txn := (txn db)\<lparr>tbl_entries := remove1 e (tbl_entries (txn db))\<rparr>\<rparr>"

definition db_delete_accounting_entry ::
  "DisbursementVoucherAccountingEntry \<Rightarrow> session \<Rightarrow> session" where
  "db_delete_accounting_entry e db =
     db\<lparr>txn := (txn db)\<lparr>tbl_accounting_entries :=
       remove1 e (tbl_accounting_entries (txn db))\<rparr>\<rparr>"

definition db_delete_certified_by ::
  "DisbursementVoucherCertifiedBy \<Rightarrow> session \<Rightarrow> session" where
  "db_delete_certified_by c db =
     db\<lparr>txn := (txn db)\<lparr>tbl_certified_by := remove1 c (tbl_certified_by (txn db))\<rparr>\<rparr>"

text \<open>
  A loaded voucher instance is known to the session by the position of its row. An
  attribute assignment on the instance changes that row in the transaction.
\<close>

definition db_assign :: "nat \<Rightarrow> (DisbursementVoucher \<Rightarrow> DisbursementVoucher) \<Rightarrow> session \<Rightarrow> session" where
  "db_assign h f db =
     (if h < length (tbl_vouchers (txn db))
      then db\<lparr>txn := (txn db)\<lparr>tbl_vouchers :=
             (tbl_vouchers (txn db))[h := f (tbl_vouchers (txn db) ! h)]\<rparr>\<rparr>
      else db)"

definition db_refresh :: "session \<Rightarrow> nat \<Rightarrow> error + DisbursementVoucher" where
  "db_refresh db h =
     (if h < length (tbl_vouchers (txn db)) then Inr (tbl_vouchers (txn db) ! h)
      else Inl InvalidRequestError)"

subsection \<open>Queries\<close>

datatype clause =
    parent_eq date
  | date_eq date
  | schoolId_eq int
  | linkedLiquidationCategory_eq string

text \<open>A comparison with a column that is NULL is not true.\<close>

fun clause_holds :: "clause \<Rightarrow> DisbursementVoucher \<Rightarrow> bool" where
  "clause_holds (parent_eq d) v = (dv_parent v = d)"
| "clause_holds (date_eq d) v = (dv_date v = d)"
| "clause_holds (schoolId_eq n) v = (dv_schoolId v = n)"
| "clause_holds (linkedLiquidationCategory_eq c) v = (dv_linkedLiquidationCategory v = Some c)"

type_synonym stmt = "clause list"

definition select_DisbursementVoucher :: stmt where
  "select_DisbursementVoucher = []"

definition stmt_where :: "stmt \<Rightarrow> clause list \<Rightarrow> stmt" where
  "stmt_where s cs = s @ cs"

definition matches :: "stmt \<Rightarrow> DisbursementVoucher \<Rightarrow> bool" where
  "matches s v = list_all (\<lambda>c. clause_holds c v) s"

definition exec_all :: "session \<Rightarrow> stmt \<Rightarrow> DisbursementVoucher list" where
  "exec_all db s = filter (matches s) (tbl_vouchers (txn db))"

fun first_index :: "('a \<Rightarrow> bool) \<Rightarrow> 'a list \<Rightarrow> nat option" where
  "first_index P [] = None"
| "first_index P (x # xs) = (if P x then Some 0 else map_option Suc (first_index P xs))"

definition exec_first :: "session \<Rightarrow> stmt \<Rightarrow> (nat \<times> DisbursementVoucher) option" where
  "exec_first db s =
     (case first_index (matches s) (tbl_vouchers (txn db)) of
        None \<Rightarrow> None
      | Some h \<Rightarrow> Some (h, tbl_vouchers (txn db) ! h))"

subsection \<open>Relationships\<close>

text \<open>
  Modelled from the spec: the relationships \<^verbatim>\<open>entries\<close>, \<^verbatim>\<open>accounting_entries\<close> and
  \<^verbatim>\<open>certified_by\<close> of a voucher are declared with the ORM classes. The spec keys a
  child collection by the identity triple of its voucher: (parent, date, schoolId).
\<close>

definition voucher_entries ::
  "session \<Rightarrow> DisbursementVoucher \<Rightarrow> DisbursementVoucherEntry list" where
  "voucher_entries db voucher =
     filter (\<lambda>e. en_parent e = dv_parent voucher \<and> datetime_day (en_date e) = dv_date voucher
                 \<and> en_schoolId e = dv_schoolId voucher)
       (tbl_entries (txn db))"

definition voucher_accounting_entries ::
  "session \<Rightarrow> DisbursementVoucher \<Rightarrow> DisbursementVoucherAccountingEntry list" where
  "voucher_accounting_entries db voucher =
     filter (\<lambda>e. ae_parent e = dv_parent voucher \<and> datetime_day (ae_date e) = dv_date voucher
                 \<and> ae_schoolId e = dv_schoolId voucher)
       (tbl_accounting_entries (txn db))"

definition voucher_certified_by ::
  "session \<Rightarrow> DisbursementVoucher \<Rightarrow> DisbursementVoucherCertifiedBy list" where
  "voucher_certified_by db voucher =
     filter (\<lambda>c. cb_parent c = dv_parent voucher \<and> cb_date c = dv_date voucher
                 \<and> cb_schoolId c = dv_schoolId voucher)
       (tbl_certified_by (txn db))"

section \<open>Collaborators\<close>

text \<open>
  Modelled from the spec: \<^verbatim>\<open>get_user\<close> and \<^verbatim>\<open>verify_user_permission\<close> of
  \<^verbatim>\<open>centralserver.internals.auth_handler\<close> are not among the sources. The spec gives
  them as \<^verbatim>\<open>resolveUser(session, token) -> User\<close> and
  \<^verbatim>\<open>authorize(session, user, scopeString) -> fails-or-ok\<close>: opaque services that read
  identity data, not the voucher tables. They are parameters here, as is the report
  status a new voucher row is given by the declaration of its class.
\<close>

datatype User = User (user_id: string)

record collaborators =
  get_user :: "string \<Rightarrow> error + User"
  verify_user_permission :: "User \<Rightarrow> string \<Rightarrow> error + unit"
  default_reportStatus :: ReportStatus

section \<open>The endpoints\<close>

text \<open>
  The three endpoints build their response with the same expression (lines 226 to 266,
  303 to 343 and 379 to 419 of the module): the columns of the voucher, and its three
  child collections as the relationships load them.
\<close>

definition build_response :: "session \<Rightarrow> DisbursementVoucher \<Rightarrow> DisbursementVoucherResponse" where
  "build_response db voucher =
     \<lparr>rs_parent = dv_parent voucher,
      rs_date = dv_date voucher,
      rs_schoolId = dv_schoolId voucher,
      rs_modeOfPayment = dv_modeOfPayment voucher,
      rs_payee = dv_payee voucher,
      rs_tinOrEmployeeNo = dv_tinOrEmployeeNo voucher,
      rs_responsibilityCenter = dv_responsibilityCenter voucher,
      rs_orsbursNo = dv_orsbursNo voucher,
      rs_address = dv_address voucher,
      rs_linkedLiquidationCategory = dv_linkedLiquidationCategory voucher,
      rs_reportStatus = dv_reportStatus voucher,
      rs_certifiedCashAvailable = dv_certifiedCashAvailable voucher,
      rs_certifiedSupportingDocsComplete = dv_certifiedSupportingDocsComplete voucher,
      rs_certifiedSubjectToDebitAccount = dv_certifiedSubjectToDebitAccount voucher,
      rs_approvedBy = dv_approvedBy voucher,
      rs_checkNo = dv_checkNo voucher,
      rs_bankNameAndAccountNo = dv_bankNameAndAccountNo voucher,
      rs_adaNo = dv_adaNo voucher,
      rs_jevNo = dv_jevNo voucher,
      rs_entries =
        map (\<lambda>entry. \<lparr>ed_receipt = en_receipt entry,
                      ed_particulars = en_particulars entry,
                      ed_unit = en_unit entry,
                      ed_quantity = en_quantity entry,
                      ed_unitPrice = en_unitPrice entry\<rparr>)
          (voucher_entries db voucher),
      rs_accountingEntries =
        map (\<lambda>entry. \<lparr>ad_uacs_code = ae_uacs_code entry,
                      ad_accountTitle = ae_accountTitle entry,
                      ad_debit = ae_debit entry,
                      ad_credit = ae_credit entry\<rparr>)
          (voucher_accounting_entries db voucher),
      rs_certifiedBy = map cb_user (voucher_certified_by db voucher)\<rparr>"

text \<open>
  \<^verbatim>\<open>DisbursementVoucher(parent=..., date=..., schoolId=...)\<close>: the three key columns
  as given, the report status as the class declares it, every other column unset. The
  unset columns are all assigned before the row is written.
\<close>

definition new_DisbursementVoucher ::
  "collaborators \<Rightarrow> date \<Rightarrow> date \<Rightarrow> int \<Rightarrow> DisbursementVoucher" where
  "new_DisbursementVoucher env parent_date voucher_date school_id =
     \<lparr>dv_parent = parent_date,
      dv_date = voucher_date,
      dv_schoolId = school_id,
      dv_modeOfPayment = [],
      dv_payee = [],
      dv_tinOrEmployeeNo = None,
      dv_responsibilityCenter = None,
      dv_orsbursNo = None,
      dv_address = None,
      dv_linkedLiquidationCategory = None,
      dv_reportStatus = default_reportStatus env,
      dv_certifiedCashAvailable = False,
      dv_certifiedSupportingDocsComplete = False,
      dv_certifiedSubjectToDebitAccount = False,
      dv_approvedBy = None,
      dv_checkNo = None,
      dv_bankNameAndAccountNo = None,
      dv_adaNo = None,
      dv_jevNo = None\<rparr>"

text \<open>Lines 168 to 183: the fifteen assignments to the voucher.\<close>

definition update_voucher_fields ::
  "DisbursementVoucherCreateRequest \<Rightarrow> DisbursementVoucher \<Rightarrow> DisbursementVoucher" where
  "update_voucher_fields request voucher =
     voucher\<lparr>dv_modeOfPayment := rq_modeOfPayment request,
             dv_payee := rq_payee request,
             dv_tinOrEmployeeNo := rq_tinOrEmployeeNo request,
             dv_responsibilityCenter := rq_responsibilityCenter request,
             dv_orsbursNo := rq_orsbursNo request,
             dv_address := rq_address request,
             dv_linkedLiquidationCategory := rq_linkedLiquidationCategory request,
             dv_certifiedCashAvailable := rq_certifiedCashAvailable request,
             dv_certifiedSupportingDocsComplete := rq_certifiedSupportingDocsComplete request,
             dv_certifiedSubjectToDebitAccount := rq_certifiedSubjectToDebitAccount request,
             dv_approvedBy := rq_approvedBy request,
             dv_checkNo := rq_checkNo request,
             dv_bankNameAndAccountNo := rq_bankNameAndAccountNo request,
             dv_adaNo := rq_adaNo request,
             dv_jevNo := rq_jevNo request\<rparr>"

text \<open>Lines 187 to 196, 201 to 209 and 214 to 219: the child rows of one upsert.\<close>

definition new_entry ::
  "date \<Rightarrow> date \<Rightarrow> int \<Rightarrow> DisbursementVoucherEntryData \<Rightarrow> DisbursementVoucherEntry" where
  "new_entry parent_date voucher_date school_id entry_data =
     \<lparr>en_parent = parent_date,
      en_date = datetime_combine voucher_date datetime_time0,
      en_schoolId = school_id,
      en_receipt = ed_receipt entry_data,
      en_particulars = ed_particulars entry_data,
      en_unit = ed_unit entry_data,
      en_quantity = ed_quantity entry_data,
      en_unitPrice = ed_unitPrice entry_data\<rparr>"

definition new_accounting_entry ::
  "date \<Rightarrow> date \<Rightarrow> int \<Rightarrow> DisbursementVoucherAccountingEntryData
     \<Rightarrow> DisbursementVoucherAccountingEntry" where
  "new_accounting_entry parent_date voucher_date school_id acc_entry_data =
     \<lparr>ae_parent = parent_date,
      ae_date = datetime_combine voucher_date datetime_time0,
      ae_schoolId = school_id,
      ae_uacs_code = ad_uacs_code acc_entry_data,
      ae_accountTitle = ad_accountTitle acc_entry_data,
      ae_debit = ad_debit acc_entry_data,
      ae_credit = ad_credit acc_entry_data\<rparr>"

definition new_certified_by ::
  "date \<Rightarrow> date \<Rightarrow> int \<Rightarrow> string \<Rightarrow> DisbursementVoucherCertifiedBy" where
  "new_certified_by parent_date voucher_date school_id certified_user =
     \<lparr>cb_parent = parent_date,
      cb_date = voucher_date,
      cb_schoolId = school_id,
      cb_user = certified_user\<rparr>"

text \<open>
  \<^verbatim>\<open>create_or_update_disbursement_voucher\<close> (lines 117 to 268). The call of the
  logger has no effect on the result and is left out. An instance of a mapped class is
  true in a condition, so \<^verbatim>\<open>if existing_voucher\<close> asks whether a row was found.
\<close>

definition create_or_update_disbursement_voucher ::
  "collaborators \<Rightarrow> int \<Rightarrow> int \<Rightarrow> int \<Rightarrow> int \<Rightarrow> DisbursementVoucherCreateRequest
     \<Rightarrow> session \<Rightarrow> string \<Rightarrow> (error + DisbursementVoucherResponse) \<times> session" where
  "create_or_update_disbursement_voucher env school_id year month date request db token =
     (case get_user env token of
        Inl e \<Rightarrow> (Inl e, db)
      | Inr user \<Rightarrow>
     (case verify_user_permission env user ''reports:local:write'' of
        Inl e \<Rightarrow> (Inl e, db)
      | Inr _ \<Rightarrow>
     (case datetime_date year month 1 of
        Inl e \<Rightarrow> (Inl e, db)
      | Inr parent_date \<Rightarrow>
     (case datetime_date year month date of
        Inl e \<Rightarrow> (Inl e, db)
      | Inr voucher_date \<Rightarrow>
       (let stmt = stmt_where select_DisbursementVoucher
                     [parent_eq parent_date, date_eq voucher_date, schoolId_eq school_id];
            existing_voucher = exec_first db stmt;
            (voucher, db) =
              (case existing_voucher of
                 Some (h, row) \<Rightarrow>
                   (let db = fold db_delete_entry (voucher_entries db row) db;
                        db = fold db_delete_accounting_entry
                               (voucher_accounting_entries db row) db;
                        db = fold db_delete_certified_by (voucher_certified_by db row) db
                    in (h, db))
               | None \<Rightarrow>
                   db_add_voucher
                     (new_DisbursementVoucher env parent_date voucher_date school_id) db);
            db = db_assign voucher (update_voucher_fields request) db;
            db = fold (\<lambda>entry_data.
                         db_add_entry (new_entry parent_date voucher_date school_id entry_data))
                   (rq_entries request) db;
            db = fold (\<lambda>acc_entry_data.
                         db_add_accounting_entry
                           (new_accounting_entry parent_date voucher_date school_id
                              acc_entry_data))
                   (rq_accountingEntries request) db;
            db = fold (\<lambda>certified_user.
                         db_add_certified_by
                           (new_certified_by parent_date voucher_date school_id certified_user))
                   (rq_certifiedBy request) db;
            db = db_commit db
        in case db_refresh db voucher of
             Inl e \<Rightarrow> (Inl e, db)
           | Inr row \<Rightarrow> (Inr (build_response db row), db))))))"

text \<open>\<^verbatim>\<open>get_disbursement_voucher\<close> (lines 271 to 345).\<close>

definition get_disbursement_voucher ::
  "collaborators \<Rightarrow> int \<Rightarrow> int \<Rightarrow> int \<Rightarrow> int \<Rightarrow> session \<Rightarrow> string
     \<Rightarrow> (error + DisbursementVoucherResponse) \<times> session" where
  "get_disbursement_voucher env school_id year month date db token =
     (case get_user env token of
        Inl e \<Rightarrow> (Inl e, db)
      | Inr user \<Rightarrow>
     (case verify_user_permission env user ''reports:local:read'' of
        Inl e \<Rightarrow> (Inl e, db)
      | Inr _ \<Rightarrow>
     (case datetime_date year month 1 of
        Inl e \<Rightarrow> (Inl e, db)
      | Inr parent_date \<Rightarrow>
     (case datetime_date year month date of
        Inl e \<Rightarrow> (Inl e, db)
      | Inr voucher_date \<Rightarrow>
       (let stmt = stmt_where select_DisbursementVoucher
                     [parent_eq parent_date, date_eq voucher_date, schoolId_eq school_id]
        in case exec_first db stmt of
             None \<Rightarrow>
               (Inl (HTTPException HTTP_404_NOT_FOUND ''Disbursement voucher not found.''), db)
           | Some (h, voucher) \<Rightarrow> (Inr (build_response db voucher), db))))))"

text \<open>
  \<^verbatim>\<open>get_disbursement_vouchers_for_month\<close> (lines 348 to 422). The query parameter
  \<^verbatim>\<open>linked_category\<close> is an optional string, and \<^verbatim>\<open>if linked_category\<close> is false for
  \<^verbatim>\<open>None\<close> and for the empty string.
\<close>

definition get_disbursement_vouchers_for_month ::
  "collaborators \<Rightarrow> int \<Rightarrow> int \<Rightarrow> int \<Rightarrow> session \<Rightarrow> string \<Rightarrow> string option
     \<Rightarrow> (error + DisbursementVoucherResponse list) \<times> session" where
  "get_disbursement_vouchers_for_month env school_id year month db token linked_category =
     (case get_user env token of
        Inl e \<Rightarrow> (Inl e, db)
      | Inr user \<Rightarrow>
     (case verify_user_permission env user ''reports:local:read'' of
        Inl e \<Rightarrow> (Inl e, db)
      | Inr _ \<Rightarrow>
     (case datetime_date year month 1 of
        Inl e \<Rightarrow> (Inl e, db)
      | Inr parent_date \<Rightarrow>
       (let stmt = stmt_where select_DisbursementVoucher
                     [parent_eq parent_date, schoolId_eq school_id];
            stmt = (case linked_category of
                      None \<Rightarrow> stmt
                    | Some c \<Rightarrow>
                        if c = [] then stmt
                        else stmt_where stmt [linkedLiquidationCategory_eq c]);
            vouchers = exec_all db stmt
        in (Inr (map (build_response db) vouchers), db)))))"

section \<open>Example inputs\<close>

text \<open>
  A collaborator set with two callers: the token \<open>clerk\<close> may read and write local
  reports, the token \<open>auditor\<close> may only read them, and any other token is refused. A new
  voucher starts as a draft.
\<close>

definition ex_env :: collaborators where
  "ex_env =
     \<lparr>get_user = (\<lambda>token.
        if token = ''clerk'' then Inr (User ''clerk'')
        else if token = ''auditor'' then Inr (User ''auditor'')
        else Inl (HTTPException 401 ''Invalid token'')),
      verify_user_permission = (\<lambda>user scope.
        if user = User ''clerk'' then Inr ()
        else if scope = ''reports:local:read'' then Inr ()
        else Inl (HTTPException 403 ''Permission denied'')),
      default_reportStatus = Draft\<rparr>"

text \<open>
  The payload of the spec's example: payee Jane Doe, one entry of two boxes of paper at
  50 each (the doubles 2.0 and 50.0), and a second payload for the same voucher.
\<close>

definition ex_request :: DisbursementVoucherCreateRequest where
  "ex_request =
     \<lparr>rq_schoolId = 5, rq_date = Date 2024 3 15,
      rq_modeOfPayment = ''Check'', rq_payee = ''Jane Doe'',
      rq_tinOrEmployeeNo = None, rq_responsibilityCenter = None, rq_orsbursNo = None,
      rq_address = None, rq_linkedLiquidationCategory = Some ''supplies'',
      rq_certifiedCashAvailable = True, rq_certifiedSupportingDocsComplete = False,
      rq_certifiedSubjectToDebitAccount = False,
      rq_approvedBy = None, rq_checkNo = Some ''0042'', rq_bankNameAndAccountNo = None,
      rq_adaNo = None, rq_jevNo = None,
      rq_entries = [\<lparr>ed_receipt = None, ed_particulars = ''Paper'', ed_unit = ''box'',
                      ed_quantity = 0x4000000000000000, ed_unitPrice = 0x4049000000000000\<rparr>],
      rq_accountingEntries = [],
      rq_certifiedBy = [''u1'']\<rparr>"

definition ex_request2 :: DisbursementVoucherCreateRequest where
  "ex_request2 =
     \<lparr>rq_schoolId = 5, rq_date = Date 2024 3 15,
      rq_modeOfPayment = ''Cash'', rq_payee = ''John Roe'',
      rq_tinOrEmployeeNo = Some ''123'', rq_responsibilityCenter = None, rq_orsbursNo = None,
      rq_address = None, rq_linkedLiquidationCategory = None,
      rq_certifiedCashAvailable = False, rq_certifiedSupportingDocsComplete = True,
      rq_certifiedSubjectToDebitAccount = False,
      rq_approvedBy = Some ''head'', rq_checkNo = None, rq_bankNameAndAccountNo = None,
      rq_adaNo = None, rq_jevNo = None,
      rq_entries = [],
      rq_accountingEntries = [\<lparr>ad_uacs_code = ''50203010'', ad_accountTitle = ''Supplies'',
                                ad_debit = 0x4059000000000000, ad_credit = 0\<rparr>],
      rq_certifiedBy = [''u2'', ''u3'']\<rparr>"

definition ex_empty :: database where
  "ex_empty = \<lparr>tbl_vouchers = [], tbl_entries = [], tbl_accounting_entries = [],
               tbl_certified_by = []\<rparr>"

text \<open>
  A store with two approved vouchers of school 5 in March 2024: one linked to the
  category \<open>supplies\<close>, one linked to no category.
\<close>

definition ex_voucher :: "int \<Rightarrow> string option \<Rightarrow> DisbursementVoucher" where
  "ex_voucher day category =
     (new_DisbursementVoucher ex_env (Date 2024 3 1) (Date 2024 3 day) 5)
       \<lparr>dv_payee := ''Jane Doe'', dv_linkedLiquidationCategory := category,
        dv_reportStatus := Approved\<rparr>"

definition ex_store :: database where
  "ex_store = \<lparr>tbl_vouchers = [ex_voucher 15 (Some ''supplies''), ex_voucher 16 None],
               tbl_entries = [], tbl_accounting_entries = [], tbl_certified_by = []\<rparr>"

text \<open>
  The same two vouchers with child rows: the voucher of 15 March has one entry and the
  certifier \<open>u9\<close>, the voucher of 16 March has one entry and the certifier \<open>u8\<close>.
\<close>

definition ex_filled :: database where
  "ex_filled =
     \<lparr>tbl_vouchers = [ex_voucher 15 (Some ''supplies''), ex_voucher 16 None],
      tbl_entries =
        [new_entry (Date 2024 3 1) (Date 2024 3 15) 5
           \<lparr>ed_receipt = Some ''R-1'', ed_particulars = ''Ink'', ed_unit = ''bottle'',
            ed_quantity = 0x4008000000000000, ed_unitPrice = 0x4059000000000000\<rparr>,
         new_entry (Date 2024 3 1) (Date 2024 3 16) 5
           \<lparr>ed_receipt = None, ed_particulars = ''Chalk'', ed_unit = ''box'',
            ed_quantity = 0x3FF0000000000000, ed_unitPrice = 0x4049000000000000\<rparr>],
      tbl_accounting_entries = [],
      tbl_certified_by =
        [new_certified_by (Date 2024 3 1) (Date 2024 3 15) 5 ''u9'',
         new_certified_by (Date 2024 3 1) (Date 2024 3 16) 5 ''u8'']\<rparr>"

section \<open>Facts about the store operations\<close>

lemma fold_remove1_filter_gen:
  "\<forall>y\<in>set ys. \<not> P y \<Longrightarrow> fold remove1 (filter P xs) (ys @ xs) = ys @ filter (\<lambda>x. \<not> P x) xs"
proof (induction xs arbitrary: ys)
  case Nil
  then show ?case by simp
next
  case (Cons x xs)
  show ?case
  proof (cases "P x")
    case True
    with Cons.prems have "remove1 x (ys @ x # xs) = ys @ xs"
      by (auto simp: remove1_append)
    with True Cons.IH [OF Cons.prems] show ?thesis by simp
  next
    case False
    with Cons.prems have "\<forall>y\<in>set (ys @ [x]). \<not> P y" by simp
    from Cons.IH [OF this] False show ?thesis by simp
  qed
qed

lemma fold_remove1_filter: "fold remove1 (filter P xs) xs = filter (\<lambda>x. \<not> P x) xs"
  using fold_remove1_filter_gen [of "[]" P xs] by simp

lemma fold_db_delete_entry:
  "fold db_delete_entry es db =
     db\<lparr>txn := (txn db)\<lparr>tbl_entries := fold remove1 es (tbl_entries (txn db))\<rparr>\<rparr>"
  by (induction es arbitrary: db) (simp_all add: db_delete_entry_def)

lemma fold_db_delete_accounting_entry:
  "fold db_delete_accounting_entry es db =
     db\<lparr>txn := (txn db)\<lparr>tbl_accounting_entries :=
        fold remove1 es (tbl_accounting_entries (txn db))\<rparr>\<rparr>"
  by (induction es arbitrary: db) (simp_all add: db_delete_accounting_entry_def)

lemma fold_db_delete_certified_by:
  "fold db_delete_certified_by cs db =
     db\<lparr>txn := (txn db)\<lparr>tbl_certified_by := fold remove1 cs (tbl_certified_by (txn db))\<rparr>\<rparr>"
  by (induction cs arbitrary: db) (simp_all add: db_delete_certified_by_def)

lemma fold_db_add_entry:
  "fold (\<lambda>x. db_add_entry (f x)) xs db =
     db\<lparr>txn := (txn db)\<lparr>tbl_entries := tbl_entries (txn db) @ map f xs\<rparr>\<rparr>"
  by (induction xs arbitrary: db) (simp_all add: db_add_entry_def)

lemma fold_db_add_accounting_entry:
  "fold (\<lambda>x. db_add_accounting_entry (f x)) xs db =
     db\<lparr>txn := (txn db)\<lparr>tbl_accounting_entries :=
        tbl_accounting_entries (txn db) @ map f xs\<rparr>\<rparr>"
  by (induction xs arbitrary: db) (simp_all add: db_add_accounting_entry_def)

lemma fold_db_add_certified_by:
  "fold (\<lambda>x. db_add_certified_by (f x)) xs db =
     db\<lparr>txn := (txn db)\<lparr>tbl_certified_by := tbl_certified_by (txn db) @ map f xs\<rparr>\<rparr>"
  by (induction xs arbitrary: db) (simp_all add: db_add_certified_by_def)

lemma first_index_Some:
  "first_index P xs = Some i \<Longrightarrow> i < length xs \<and> P (xs ! i) \<and> (\<forall>j<i. \<not> P (xs ! j))"
proof (induction xs arbitrary: i)
  case Nil
  then show ?case by simp
next
  case (Cons x xs)
  then show ?case
    by (auto split: if_splits simp: nth_Cons split: nat.splits)
qed

lemma first_index_None: "first_index P xs = None \<longleftrightarrow> (\<forall>x\<in>set xs. \<not> P x)"
  by (induction xs) auto

lemma first_index_append_new:
  "first_index P xs = None \<Longrightarrow> P y \<Longrightarrow> first_index P (xs @ [y]) = Some (length xs)"
  by (induction xs) (auto split: if_splits)

lemma first_index_update:
  "first_index P xs = Some i \<Longrightarrow> P y \<Longrightarrow> first_index P (xs[i := y]) = Some i"
proof (induction xs arbitrary: i)
  case Nil
  then show ?case by simp
next
  case (Cons x xs)
  then show ?case
    by (cases i) (auto split: if_splits)
qed


lemma days_in_month_ge: "28 \<le> days_in_month y m"
  by (simp add: days_in_month_def)

lemma datetime_date_Inr:
  "datetime_date y m d = Inr vd \<Longrightarrow> vd = Date y m d \<and> datetime_date y m 1 = Inr (Date y m 1)"
  using days_in_month_ge [of y m]
  by (auto simp: datetime_date_def fits_c_int_def split: if_splits)

lemma matches_key:
  "matches (stmt_where select_DisbursementVoucher [parent_eq p, date_eq d, schoolId_eq s]) v
     = (dv_parent v = p \<and> dv_date v = d \<and> dv_schoolId v = s)"
  by (simp add: matches_def stmt_where_def select_DisbursementVoucher_def)

lemma update_voucher_fields_key:
  "dv_parent (update_voucher_fields r v) = dv_parent v"
  "dv_date (update_voucher_fields r v) = dv_date v"
  "dv_schoolId (update_voucher_fields r v) = dv_schoolId v"
  "dv_reportStatus (update_voucher_fields r v) = dv_reportStatus v"
  by (simp_all add: update_voucher_fields_def)

lemma database_all_updates:
  "(d::database)\<lparr>tbl_vouchers := a, tbl_entries := b, tbl_accounting_entries := c,
      tbl_certified_by := e\<rparr> =
   \<lparr>tbl_vouchers = a, tbl_entries = b, tbl_accounting_entries = c, tbl_certified_by = e\<rparr>"
  by (cases d) simp

lemma upsert_existing:
  assumes user: "get_user env token = Inr user"
    and perm: "verify_user_permission env user ''reports:local:write'' = Inr ()"
    and valid: "datetime_date year month date = Inr voucher_date"
    and found: "first_index
                  (matches (stmt_where select_DisbursementVoucher
                     [parent_eq (Date year month 1), date_eq (Date year month date),
                      schoolId_eq school_id]))
                  (tbl_vouchers d) = Some h"
  shows "create_or_update_disbursement_voucher env school_id year month date request
           (get_db_session d) token =
         (let row = update_voucher_fields request (tbl_vouchers d ! h);
              d' = \<lparr>tbl_vouchers = (tbl_vouchers d)[h := row],
                    tbl_entries =
                      filter (\<lambda>e. \<not> (en_parent e = Date year month 1
                                       \<and> datetime_day (en_date e) = Date year month date
                                       \<and> en_schoolId e = school_id)) (tbl_entries d)
                      @ map (new_entry (Date year month 1) (Date year month date) school_id)
                          (rq_entries request),
                    tbl_accounting_entries =
                      filter (\<lambda>e. \<not> (ae_parent e = Date year month 1
                                       \<and> datetime_day (ae_date e) = Date year month date
                                       \<and> ae_schoolId e = school_id))
                        (tbl_accounting_entries d)
                      @ map (new_accounting_entry (Date year month 1) (Date year month date)
                               school_id)
                          (rq_accountingEntries request),
                    tbl_certified_by =
                      filter (\<lambda>c. \<not> (cb_parent c = Date year month 1
                                       \<and> cb_date c = Date year month date
                                       \<and> cb_schoolId c = school_id)) (tbl_certified_by d)
                      @ map (new_certified_by (Date year month 1) (Date year month date)
                               school_id)
                          (rq_certifiedBy request)\<rparr>
          in (Inr (build_response (get_db_session d') row), get_db_session d'))"
proof -
  from datetime_date_Inr [OF valid]
  have vd: "voucher_date = Date year month date"
    and pd: "datetime_date year month 1 = Inr (Date year month 1)" by simp_all
  from first_index_Some [OF found]
  have h: "h < length (tbl_vouchers d)"
    and key: "dv_parent (tbl_vouchers d ! h) = Date year month 1"
             "dv_date (tbl_vouchers d ! h) = Date year month date"
             "dv_schoolId (tbl_vouchers d ! h) = school_id"
    by (simp_all add: matches_key)
  show ?thesis
    unfolding create_or_update_disbursement_voucher_def
    using h
    by (simp add: user perm pd valid [unfolded vd] Let_def exec_first_def found
        get_db_session_def fold_db_delete_entry fold_db_delete_accounting_entry
        fold_db_delete_certified_by fold_db_add_entry fold_db_add_accounting_entry
        fold_db_add_certified_by voucher_entries_def voucher_accounting_entries_def
        voucher_certified_by_def key fold_remove1_filter db_assign_def db_commit_def
        db_refresh_def database_all_updates)
qed

lemma upsert_new:
  assumes user: "get_user env token = Inr user"
    and perm: "verify_user_permission env user ''reports:local:write'' = Inr ()"
    and valid: "datetime_date year month date = Inr voucher_date"
    and found: "first_index
                  (matches (stmt_where select_DisbursementVoucher
                     [parent_eq (Date year month 1), date_eq (Date year month date),
                      schoolId_eq school_id]))
                  (tbl_vouchers d) = None"
  shows "create_or_update_disbursement_voucher env school_id year month date request
           (get_db_session d) token =
         (let row = update_voucher_fields request
                      (new_DisbursementVoucher env (Date year month 1) (Date year month date)
                         school_id);
              d' = \<lparr>tbl_vouchers = tbl_vouchers d @ [row],
                    tbl_entries = tbl_entries d
                      @ map (new_entry (Date year month 1) (Date year month date) school_id)
                          (rq_entries request),
                    tbl_accounting_entries = tbl_accounting_entries d
                      @ map (new_accounting_entry (Date year month 1) (Date year month date)
                               school_id)
                          (rq_accountingEntries request),
                    tbl_certified_by = tbl_certified_by d
                      @ map (new_certified_by (Date year month 1) (Date year month date)
                               school_id)
                          (rq_certifiedBy request)\<rparr>
          in (Inr (build_response (get_db_session d') row), get_db_session d'))"
proof -
  from datetime_date_Inr [OF valid]
  have vd: "voucher_date = Date year month date"
    and pd: "datetime_date year month 1 = Inr (Date year month 1)" by simp_all
  show ?thesis
    unfolding create_or_update_disbursement_voucher_def
    by (simp add: user perm pd valid [unfolded vd] Let_def exec_first_def found
        get_db_session_def fold_db_add_entry fold_db_add_accounting_entry
        fold_db_add_certified_by db_add_voucher_def db_assign_def db_commit_def
        db_refresh_def database_all_updates)
qed


lemma find_first_index:
  "find P xs = (case first_index P xs of None \<Rightarrow> None | Some i \<Rightarrow> Some (xs ! i))"
  by (induction xs) (auto split: option.splits)

lemma get_characterisation:
  assumes user: "get_user env token = Inr user"
    and perm: "verify_user_permission env user ''reports:local:read'' = Inr ()"
    and valid: "datetime_date year month date = Inr voucher_date"
  shows "get_disbursement_voucher env school_id year month date db token =
         (case find (\<lambda>v. dv_parent v = Date year month 1 \<and> dv_date v = Date year month date
                          \<and> dv_schoolId v = school_id) (tbl_vouchers (txn db)) of
            None \<Rightarrow> (Inl (HTTPException 404 ''Disbursement voucher not found.''), db)
          | Some voucher \<Rightarrow> (Inr (build_response db voucher), db))"
proof -
  from datetime_date_Inr [OF valid]
  have vd: "voucher_date = Date year month date"
    and pd: "datetime_date year month 1 = Inr (Date year month 1)" by simp_all
  have m: "matches (stmt_where select_DisbursementVoucher
             [parent_eq (Date year month 1), date_eq (Date year month date),
              schoolId_eq school_id]) =
           (\<lambda>v. dv_parent v = Date year month 1 \<and> dv_date v = Date year month date
                          \<and> dv_schoolId v = school_id)"
    by (rule ext) (simp add: matches_key)
  show ?thesis
    unfolding get_disbursement_voucher_def
    by (simp add: user perm pd valid [unfolded vd] Let_def exec_first_def m
        find_first_index HTTP_404_NOT_FOUND_def split: option.splits)
qed

lemma matches_key_fun:
  "matches (stmt_where select_DisbursementVoucher [parent_eq p, date_eq d, schoolId_eq s])
     = (\<lambda>v. dv_parent v = p \<and> dv_date v = d \<and> dv_schoolId v = s)"
  by (rule ext) (simp add: matches_key)

lemma upsert_result:
  assumes user: "get_user env token = Inr user"
    and perm: "verify_user_permission env user ''reports:local:write'' = Inr ()"
    and valid: "datetime_date year month date = Inr voucher_date"
  shows "\<exists>h d'.
     create_or_update_disbursement_voucher env school_id year month date request
       (get_db_session d) token
       = (Inr (build_response (get_db_session d') (tbl_vouchers d' ! h)), get_db_session d')
     \<and> first_index (\<lambda>v. dv_parent v = Date year month 1 \<and> dv_date v = Date year month date
                          \<and> dv_schoolId v = school_id) (tbl_vouchers d') = Some h
     \<and> tbl_vouchers d' ! h =
         update_voucher_fields request
           (case find (\<lambda>v. dv_parent v = Date year month 1 \<and> dv_date v = Date year month date
                          \<and> dv_schoolId v = school_id) (tbl_vouchers d) of
              Some row \<Rightarrow> row
            | None \<Rightarrow> new_DisbursementVoucher env (Date year month 1) (Date year month date)
                        school_id)
     \<and> tbl_vouchers d' =
         (case first_index (\<lambda>v. dv_parent v = Date year month 1
                          \<and> dv_date v = Date year month date
                          \<and> dv_schoolId v = school_id) (tbl_vouchers d) of
            Some i \<Rightarrow> (tbl_vouchers d)[i := update_voucher_fields request (tbl_vouchers d ! i)]
          | None \<Rightarrow> tbl_vouchers d @
                     [update_voucher_fields request
                        (new_DisbursementVoucher env (Date year month 1)
                           (Date year month date) school_id)])
     \<and> tbl_entries d' =
         (case find (\<lambda>v. dv_parent v = Date year month 1 \<and> dv_date v = Date year month date
                          \<and> dv_schoolId v = school_id) (tbl_vouchers d) of
            Some row \<Rightarrow>
              filter (\<lambda>e. \<not> (en_parent e = Date year month 1
                               \<and> datetime_day (en_date e) = Date year month date
                               \<and> en_schoolId e = school_id)) (tbl_entries d)
          | None \<Rightarrow> tbl_entries d)
         @ map (new_entry (Date year month 1) (Date year month date) school_id)
             (rq_entries request)
     \<and> tbl_accounting_entries d' =
         (case find (\<lambda>v. dv_parent v = Date year month 1 \<and> dv_date v = Date year month date
                          \<and> dv_schoolId v = school_id) (tbl_vouchers d) of
            Some row \<Rightarrow>
              filter (\<lambda>e. \<not> (ae_parent e = Date year month 1
                               \<and> datetime_day (ae_date e) = Date year month date
                               \<and> ae_schoolId e = school_id)) (tbl_accounting_entries d)
          | None \<Rightarrow> tbl_accounting_entries d)
         @ map (new_accounting_entry (Date year month 1) (Date year month date) school_id)
             (rq_accountingEntries request)
     \<and> tbl_certified_by d' =
         (case find (\<lambda>v. dv_parent v = Date year month 1 \<and> dv_date v = Date year month date
                          \<and> dv_schoolId v = school_id) (tbl_vouchers d) of
            Some row \<Rightarrow>
              filter (\<lambda>c. \<not> (cb_parent c = Date year month 1
                               \<and> cb_date c = Date year month date
                               \<and> cb_schoolId c = school_id)) (tbl_certified_by d)
          | None \<Rightarrow> tbl_certified_by d)
         @ map (new_certified_by (Date year month 1) (Date year month date) school_id)
             (rq_certifiedBy request)"
proof (cases "first_index (\<lambda>v. dv_parent v = Date year month 1
                \<and> dv_date v = Date year month date
                \<and> dv_schoolId v = school_id) (tbl_vouchers d)")
  case None
  let ?row = "update_voucher_fields request
                (new_DisbursementVoucher env (Date year month 1) (Date year month date)
                   school_id)"
  have k: "dv_parent ?row = Date year month 1 \<and> dv_date ?row = Date year month date
           \<and> dv_schoolId ?row = school_id"
    by (simp add: update_voucher_fields_key new_DisbursementVoucher_def)
  from None k have f: "first_index (\<lambda>v. dv_parent v = Date year month 1
                \<and> dv_date v = Date year month date
                \<and> dv_schoolId v = school_id) (tbl_vouchers d @ [?row])
                = Some (length (tbl_vouchers d))"
    by (rule first_index_append_new)
  from None have nf: "find (\<lambda>v. dv_parent v = Date year month 1
                \<and> dv_date v = Date year month date
                \<and> dv_schoolId v = school_id) (tbl_vouchers d) = None"
    by (simp add: find_first_index)
  define d' where "d' =
     \<lparr>tbl_vouchers = tbl_vouchers d @ [?row],
      tbl_entries = tbl_entries d
        @ map (new_entry (Date year month 1) (Date year month date) school_id)
            (rq_entries request),
      tbl_accounting_entries = tbl_accounting_entries d
        @ map (new_accounting_entry (Date year month 1) (Date year month date) school_id)
            (rq_accountingEntries request),
      tbl_certified_by = tbl_certified_by d
        @ map (new_certified_by (Date year month 1) (Date year month date) school_id)
            (rq_certifiedBy request)\<rparr>"
  have run: "create_or_update_disbursement_voucher env school_id year month date request
               (get_db_session d) token
             = (Inr (build_response (get_db_session d') ?row), get_db_session d')"
    by (simp only: upsert_new [OF user perm valid None [folded matches_key_fun]] Let_def
        d'_def)
  have tv: "tbl_vouchers d' = tbl_vouchers d @ [?row]" by (simp add: d'_def)
  show ?thesis
    apply (rule exI [of _ "length (tbl_vouchers d)"])
    apply (rule exI [of _ d'])
    apply (simp add: run tv f None nf)
    apply (simp add: d'_def)
    done
next
  case (Some i)
  let ?row = "update_voucher_fields request (tbl_vouchers d ! i)"
  from first_index_Some [OF Some]
  have i: "i < length (tbl_vouchers d)"
    and ki: "dv_parent (tbl_vouchers d ! i) = Date year month 1
             \<and> dv_date (tbl_vouchers d ! i) = Date year month date
             \<and> dv_schoolId (tbl_vouchers d ! i) = school_id" by simp_all
  from ki have k: "dv_parent ?row = Date year month 1 \<and> dv_date ?row = Date year month date
           \<and> dv_schoolId ?row = school_id"
    by (simp add: update_voucher_fields_key)
  from Some k have f: "first_index (\<lambda>v. dv_parent v = Date year month 1
                \<and> dv_date v = Date year month date
                \<and> dv_schoolId v = school_id) ((tbl_vouchers d)[i := ?row]) = Some i"
    by (rule first_index_update)
  from Some have nf: "find (\<lambda>v. dv_parent v = Date year month 1
                \<and> dv_date v = Date year month date
                \<and> dv_schoolId v = school_id) (tbl_vouchers d) = Some (tbl_vouchers d ! i)"
    by (simp add: find_first_index)
  define d' where "d' =
     \<lparr>tbl_vouchers = (tbl_vouchers d)[i := ?row],
      tbl_entries =
        filter (\<lambda>e. \<not> (en_parent e = Date year month 1
                         \<and> datetime_day (en_date e) = Date year month date
                         \<and> en_schoolId e = school_id)) (tbl_entries d)
        @ map (new_entry (Date year month 1) (Date year month date) school_id)
            (rq_entries request),
      tbl_accounting_entries =
        filter (\<lambda>e. \<not> (ae_parent e = Date year month 1
                         \<and> datetime_day (ae_date e) = Date year month date
                         \<and> ae_schoolId e = school_id)) (tbl_accounting_entries d)
        @ map (new_accounting_entry (Date year month 1) (Date year month date) school_id)
            (rq_accountingEntries request),
      tbl_certified_by =
        filter (\<lambda>c. \<not> (cb_parent c = Date year month 1
                         \<and> cb_date c = Date year month date
                         \<and> cb_schoolId c = school_id)) (tbl_certified_by d)
        @ map (new_certified_by (Date year month 1) (Date year month date) school_id)
            (rq_certifiedBy request)\<rparr>"
  have run: "create_or_update_disbursement_voucher env school_id year month date request
               (get_db_session d) token
             = (Inr (build_response (get_db_session d') ?row), get_db_session d')"
    by (simp only: upsert_existing [OF user perm valid Some [folded matches_key_fun]]
        Let_def d'_def)
  have tv: "tbl_vouchers d' = (tbl_vouchers d)[i := ?row]" by (simp add: d'_def)
  show ?thesis
    apply (rule exI [of _ i])
    apply (rule exI [of _ d'])
    apply (simp add: run tv f Some nf i)
    apply (simp add: d'_def)
    done
qed

lemma map_update_same: "(map f xs)[i := f (xs ! i)] = map f xs"
  by (metis list_update_id map_update)

lemma update_voucher_fields_header:
  "dv_modeOfPayment (update_voucher_fields r v) = rq_modeOfPayment r"
  "dv_payee (update_voucher_fields r v) = rq_payee r"
  "dv_tinOrEmployeeNo (update_voucher_fields r v) = rq_tinOrEmployeeNo r"
  "dv_responsibilityCenter (update_voucher_fields r v) = rq_responsibilityCenter r"
  "dv_orsbursNo (update_voucher_fields r v) = rq_orsbursNo r"
  "dv_address (update_voucher_fields r v) = rq_address r"
  "dv_linkedLiquidationCategory (update_voucher_fields r v) = rq_linkedLiquidationCategory r"
  "dv_certifiedCashAvailable (update_voucher_fields r v) = rq_certifiedCashAvailable r"
  "dv_certifiedSupportingDocsComplete (update_voucher_fields r v)
     = rq_certifiedSupportingDocsComplete r"
  "dv_certifiedSubjectToDebitAccount (update_voucher_fields r v)
     = rq_certifiedSubjectToDebitAccount r"
  "dv_approvedBy (update_voucher_fields r v) = rq_approvedBy r"
  "dv_checkNo (update_voucher_fields r v) = rq_checkNo r"
  "dv_bankNameAndAccountNo (update_voucher_fields r v) = rq_bankNameAndAccountNo r"
  "dv_adaNo (update_voucher_fields r v) = rq_adaNo r"
  "dv_jevNo (update_voucher_fields r v) = rq_jevNo r"
  by (simp_all add: update_voucher_fields_def)

lemma new_entry_key:
  "en_parent (new_entry p d s x) = p"
  "en_date (new_entry p d s x) = Datetime d (Time 0 0 0 0)"
  "datetime_day (en_date (new_entry p d s x)) = d"
  "en_schoolId (new_entry p d s x) = s"
  by (simp_all add: new_entry_def datetime_combine_def datetime_time0_def)

lemma new_accounting_entry_key:
  "ae_parent (new_accounting_entry p d s x) = p"
  "ae_date (new_accounting_entry p d s x) = Datetime d (Time 0 0 0 0)"
  "datetime_day (ae_date (new_accounting_entry p d s x)) = d"
  "ae_schoolId (new_accounting_entry p d s x) = s"
  by (simp_all add: new_accounting_entry_def datetime_combine_def datetime_time0_def)

lemma new_certified_by_key:
  "cb_parent (new_certified_by p d s x) = p"
  "cb_date (new_certified_by p d s x) = d"
  "cb_schoolId (new_certified_by p d s x) = s"
  "cb_user (new_certified_by p d s x) = x"
  by (simp_all add: new_certified_by_def)

lemma filter_replaced:
  assumes "\<And>x. P (f x)"
  shows "filter P (filter (\<lambda>e. \<not> P e) xs @ map f ys) = map f ys"
    and "filter (\<lambda>e. \<not> P e) (filter (\<lambda>e. \<not> P e) xs @ map f ys) = filter (\<lambda>e. \<not> P e) xs"
    and "filter (\<lambda>e. \<not> P e) (xs @ map f ys) = filter (\<lambda>e. \<not> P e) xs"
  using assms by (simp_all add: filter_map o_def)

lemma filter_twice: "filter P (filter P xs) = filter P xs"
  by (induction xs) simp_all

lemma entry_data_roundtrip:
  "map (\<lambda>entry. \<lparr>ed_receipt = en_receipt entry, ed_particulars = en_particulars entry,
                  ed_unit = en_unit entry, ed_quantity = en_quantity entry,
                  ed_unitPrice = en_unitPrice entry\<rparr>)
     (map (new_entry p d s) xs) = xs"
  by (induction xs) (simp_all add: new_entry_def)

lemma accounting_entry_data_roundtrip:
  "map (\<lambda>entry. \<lparr>ad_uacs_code = ae_uacs_code entry, ad_accountTitle = ae_accountTitle entry,
                  ad_debit = ae_debit entry, ad_credit = ae_credit entry\<rparr>)
     (map (new_accounting_entry p d s) xs) = xs"
  by (induction xs) (simp_all add: new_accounting_entry_def)

lemma certified_by_roundtrip:
  "map cb_user (map (new_certified_by p d s) xs) = xs"
  by (induction xs) (simp_all add: new_certified_by_def)

section \<open>The claims\<close>

text \<open>
  Claim C3. For a caller that passes the read-permission check and a valid calendar date,
  the get operation looks for the first voucher whose parent is the first day of the
  month, whose date is the exact date and whose school is the given one. When there is
  none it fails with the HTTP exception 404 and the message "Disbursement voucher not
  found."; otherwise it succeeds, and its response carries the data persisted for that
  voucher: every column of the voucher row, and the entries, accounting entries and
  certifiers stored under its key, in store order.
\<close>

theorem get_not_found_or_data:
  assumes "get_user env token = Inr user"
    and "verify_user_permission env user ''reports:local:read'' = Inr ()"
    and "datetime_date year month date = Inr voucher_date"
  shows "case find (\<lambda>v. dv_parent v = Date year month 1 \<and> dv_date v = Date year month date
                        \<and> dv_schoolId v = school_id) (tbl_vouchers d) of
           None \<Rightarrow>
             fst (get_disbursement_voucher env school_id year month date (get_db_session d)
                    token)
             = Inl (HTTPException 404 ''Disbursement voucher not found.'')
         | Some voucher \<Rightarrow>
             (\<exists>resp.
                fst (get_disbursement_voucher env school_id year month date (get_db_session d)
                       token) = Inr resp
                \<and> rs_parent resp = dv_parent voucher
                \<and> rs_date resp = dv_date voucher
                \<and> rs_schoolId resp = dv_schoolId voucher
                \<and> rs_modeOfPayment resp = dv_modeOfPayment voucher
                \<and> rs_payee resp = dv_payee voucher
                \<and> rs_tinOrEmployeeNo resp = dv_tinOrEmployeeNo voucher
                \<and> rs_responsibilityCenter resp = dv_responsibilityCenter voucher
                \<and> rs_orsbursNo resp = dv_orsbursNo voucher
                \<and> rs_address resp = dv_address voucher
                \<and> rs_linkedLiquidationCategory resp = dv_linkedLiquidationCategory voucher
                \<and> rs_reportStatus resp = dv_reportStatus voucher
                \<and> rs_certifiedCashAvailable resp = dv_certifiedCashAvailable voucher
                \<and> rs_certifiedSupportingDocsComplete resp
                    = dv_certifiedSupportingDocsComplete voucher
                \<and> rs_certifiedSubjectToDebitAccount resp
                    = dv_certifiedSubjectToDebitAccount voucher
                \<and> rs_approvedBy resp = dv_approvedBy voucher
                \<and> rs_checkNo resp = dv_checkNo voucher
                \<and> rs_bankNameAndAccountNo resp = dv_bankNameAndAccountNo voucher
                \<and> rs_adaNo resp = dv_adaNo voucher
                \<and> rs_jevNo resp = dv_jevNo voucher
                \<and> rs_entries resp =
                    map (\<lambda>e. \<lparr>ed_receipt = en_receipt e, ed_particulars = en_particulars e,
                              ed_unit = en_unit e, ed_quantity = en_quantity e,
                              ed_unitPrice = en_unitPrice e\<rparr>)
                      (filter (\<lambda>e. en_parent e = Date year month 1
                                    \<and> datetime_day (en_date e) = Date year month date
                                    \<and> en_schoolId e = school_id) (tbl_entries d))
                \<and> rs_accountingEntries resp =
                    map (\<lambda>e. \<lparr>ad_uacs_code = ae_uacs_code e,
                              ad_accountTitle = ae_accountTitle e,
                              ad_debit = ae_debit e, ad_credit = ae_credit e\<rparr>)
                      (filter (\<lambda>e. ae_parent e = Date year month 1
                                    \<and> datetime_day (ae_date e) = Date year month date
                                    \<and> ae_schoolId e = school_id) (tbl_accounting_entries d))
                \<and> rs_certifiedBy resp =
                    map cb_user
                      (filter (\<lambda>c. cb_parent c = Date year month 1
                                    \<and> cb_date c = Date year month date
                                    \<and> cb_schoolId c = school_id) (tbl_certified_by d)))"
proof (cases "find (\<lambda>v. dv_parent v = Date year month 1 \<and> dv_date v = Date year month date
                        \<and> dv_schoolId v = school_id) (tbl_vouchers d)")
  case None
  then show ?thesis
    by (simp add: get_characterisation [OF assms] get_db_session_def)
next
  case (Some voucher)
  then have key: "dv_parent voucher = Date year month 1"
    "dv_date voucher = Date year month date" "dv_schoolId voucher = school_id"
    by (auto simp: find_Some_iff)
  have run: "fst (get_disbursement_voucher env school_id year month date (get_db_session d)
                    token) = Inr (build_response (get_db_session d) voucher)"
    by (simp add: get_characterisation [OF assms] get_db_session_def Some)
  show ?thesis
    unfolding Some option.case run
    by (rule exI [of _ "build_response (get_db_session d) voucher"])
      (simp add: build_response_def voucher_entries_def voucher_accounting_entries_def
        voucher_certified_by_def get_db_session_def key)
qed

theorem get_not_found_or_data_witness:
  "get_user ex_env ''auditor'' = Inr (User ''auditor'')
   \<and> verify_user_permission ex_env (User ''auditor'') ''reports:local:read'' = Inr ()
   \<and> datetime_date 2024 3 20 = Inr (Date 2024 3 20)
   \<and> datetime_date 2024 3 15 = Inr (Date 2024 3 15)
   \<and> fst (get_disbursement_voucher ex_env 5 2024 3 20 (get_db_session ex_filled) ''auditor'')
       = Inl (HTTPException 404 ''Disbursement voucher not found.'')
   \<and> (\<exists>resp.
        fst (get_disbursement_voucher ex_env 5 2024 3 15 (get_db_session ex_filled)
               ''auditor'') = Inr resp
        \<and> rs_date resp = Date 2024 3 15
        \<and> rs_payee resp = ''Jane Doe''
        \<and> rs_linkedLiquidationCategory resp = Some ''supplies''
        \<and> rs_reportStatus resp = Approved
        \<and> rs_entries resp =
            [\<lparr>ed_receipt = Some ''R-1'', ed_particulars = ''Ink'', ed_unit = ''bottle'',
              ed_quantity = 0x4008000000000000, ed_unitPrice = 0x4059000000000000\<rparr>]
        \<and> rs_accountingEntries resp = []
        \<and> rs_certifiedBy resp = [''u9''])"
proof -
  have u: "get_user ex_env ''auditor'' = Inr (User ''auditor'')"
    by (simp add: ex_env_def)
  have p: "verify_user_permission ex_env (User ''auditor'') ''reports:local:read'' = Inr ()"
    by (simp add: ex_env_def)
  have v: "datetime_date 2024 3 20 = Inr (Date 2024 3 20)"
    by (simp add: datetime_date_def fits_c_int_def days_in_month_def)
  have v': "datetime_date 2024 3 15 = Inr (Date 2024 3 15)"
    by (simp add: datetime_date_def fits_c_int_def days_in_month_def)
  have none: "fst (get_disbursement_voucher ex_env 5 2024 3 20 (get_db_session ex_filled)
                     ''auditor'')
              = Inl (HTTPException 404 ''Disbursement voucher not found.'')"
    using get_not_found_or_data [OF u p v, of 5 ex_filled]
    by (simp add: ex_filled_def ex_voucher_def new_DisbursementVoucher_def)
  have f: "find (\<lambda>v. dv_parent v = Date 2024 3 1 \<and> dv_date v = Date 2024 3 15
                       \<and> dv_schoolId v = 5) (tbl_vouchers ex_filled)
           = Some (ex_voucher 15 (Some ''supplies''))"
    by (simp add: ex_filled_def ex_voucher_def new_DisbursementVoucher_def)
  have te: "filter (\<lambda>e. en_parent e = Date 2024 3 1
                        \<and> datetime_day (en_date e) = Date 2024 3 15
                        \<and> en_schoolId e = 5) (tbl_entries ex_filled)
            = [new_entry (Date 2024 3 1) (Date 2024 3 15) 5
                 \<lparr>ed_receipt = Some ''R-1'', ed_particulars = ''Ink'', ed_unit = ''bottle'',
                  ed_quantity = 0x4008000000000000, ed_unitPrice = 0x4059000000000000\<rparr>]"
    by (simp add: ex_filled_def new_entry_def datetime_combine_def)
  have ta: "filter (\<lambda>e. ae_parent e = Date 2024 3 1
                        \<and> datetime_day (ae_date e) = Date 2024 3 15
                        \<and> ae_schoolId e = 5) (tbl_accounting_entries ex_filled) = []"
    by (simp add: ex_filled_def)
  have tc: "filter (\<lambda>c. cb_parent c = Date 2024 3 1 \<and> cb_date c = Date 2024 3 15
                        \<and> cb_schoolId c = 5) (tbl_certified_by ex_filled)
            = [new_certified_by (Date 2024 3 1) (Date 2024 3 15) 5 ''u9'']"
    by (simp add: ex_filled_def new_certified_by_def)
  have some: "\<exists>resp.
        fst (get_disbursement_voucher ex_env 5 2024 3 15 (get_db_session ex_filled)
               ''auditor'') = Inr resp
        \<and> rs_date resp = Date 2024 3 15
        \<and> rs_payee resp = ''Jane Doe''
        \<and> rs_linkedLiquidationCategory resp = Some ''supplies''
        \<and> rs_reportStatus resp = Approved
        \<and> rs_entries resp =
            [\<lparr>ed_receipt = Some ''R-1'', ed_particulars = ''Ink'', ed_unit = ''bottle'',
              ed_quantity = 0x4008000000000000, ed_unitPrice = 0x4059000000000000\<rparr>]
        \<and> rs_accountingEntries resp = []
        \<and> rs_certifiedBy resp = [''u9'']"
    using get_not_found_or_data [OF u p v', of 5 ex_filled, unfolded f option.case te ta tc]
    by (auto simp: ex_voucher_def new_DisbursementVoucher_def new_entry_def
        new_certified_by_def)
  from u p v v' none some show ?thesis by simp
qed

text \<open>
  Claim C7. For every input and every state of the session, the get operation and the
  list operation return the session as they received it: the persisted store and the
  view of the transaction are both unchanged, on the success path and on every failing
  path alike.
\<close>
theorem retrieval_leaves_store_unchanged:
  "snd (get_disbursement_voucher env school_id year month date db token) = db
   \<and> snd (get_disbursement_vouchers_for_month env school_id year month db token
            linked_category) = db"
  by (simp add: get_disbursement_voucher_def get_disbursement_vouchers_for_month_def Let_def
      split: sum.splits option.splits prod.splits)

theorem retrieval_leaves_store_unchanged_witness:
  "snd (get_disbursement_voucher ex_env 5 2024 3 20 (get_db_session ex_store) ''auditor'')
     = get_db_session ex_store
   \<and> snd (get_disbursement_vouchers_for_month ex_env 5 2024 3 (get_db_session ex_store)
            ''auditor'' (Some ''supplies'')) = get_db_session ex_store"
  using retrieval_leaves_store_unchanged
    [of ex_env 5 2024 3 20 "get_db_session ex_store" "''auditor''" "Some ''supplies''"]
  by simp

text \<open>
  Claim C8. Every endpoint resolves the caller and checks its permission scope before
  anything else: \<open>reports:local:write\<close> for the upsert, \<open>reports:local:read\<close> for get and
  list. When resolving the caller fails, or the check of that scope fails, the endpoint
  fails with that very error, whatever the store holds, and returns the session
  unchanged.
\<close>
theorem permission_checked_first:
  assumes "get_user env token = Inl e
           \<or> (\<exists>user. get_user env token = Inr user
                 \<and> verify_user_permission env user scope = Inl e)"
  shows "(scope = ''reports:local:write'' \<longrightarrow>
            create_or_update_disbursement_voucher env school_id year month date request db
              token = (Inl e, db))
         \<and> (scope = ''reports:local:read'' \<longrightarrow>
            get_disbursement_voucher env school_id year month date db token = (Inl e, db)
            \<and> get_disbursement_vouchers_for_month env school_id year month db token
                linked_category = (Inl e, db))"
  using assms
  by (auto simp: create_or_update_disbursement_voucher_def get_disbursement_voucher_def
      get_disbursement_vouchers_for_month_def)

theorem permission_checked_first_witness:
  "(get_user ex_env ''auditor'' = Inl (HTTPException 403 ''Permission denied'')
    \<or> (\<exists>user. get_user ex_env ''auditor'' = Inr user
          \<and> verify_user_permission ex_env user ''reports:local:write''
              = Inl (HTTPException 403 ''Permission denied'')))
   \<and> create_or_update_disbursement_voucher ex_env 5 2024 3 15 ex_request
        (get_db_session ex_store) ''auditor''
      = (Inl (HTTPException 403 ''Permission denied''), get_db_session ex_store)"
proof -
  have h: "get_user ex_env ''auditor'' = Inl (HTTPException 403 ''Permission denied'')
    \<or> (\<exists>user. get_user ex_env ''auditor'' = Inr user
          \<and> verify_user_permission ex_env user ''reports:local:write''
              = Inl (HTTPException 403 ''Permission denied''))"
    by (simp add: ex_env_def)
  show ?thesis
    using h permission_checked_first [OF h, of 5 2024 3 15 ex_request
        "get_db_session ex_store" None]
    by simp
qed

text \<open>
  Claim C10. The list operation called with the empty string as \<open>linked_category\<close>
  returns what it returns with no \<open>linked_category\<close> at all.
\<close>
theorem empty_category_is_no_filter:
  "get_disbursement_vouchers_for_month env school_id year month db token (Some [])
   = get_disbursement_vouchers_for_month env school_id year month db token None"
  by (simp add: get_disbursement_vouchers_for_month_def split: sum.splits)

theorem empty_category_is_no_filter_witness:
  "get_disbursement_vouchers_for_month ex_env 5 2024 3 (get_db_session ex_store) ''auditor''
     (Some [])
   = get_disbursement_vouchers_for_month ex_env 5 2024 3 (get_db_session ex_store)
       ''auditor'' None
   \<and> fst (get_disbursement_vouchers_for_month ex_env 5 2024 3 (get_db_session ex_store)
       ''auditor'' None)
     = Inr [build_response (get_db_session ex_store) (ex_voucher 15 (Some ''supplies'')),
            build_response (get_db_session ex_store) (ex_voucher 16 None)]"
  using empty_category_is_no_filter [of ex_env 5 2024 3 "get_db_session ex_store" "''auditor''"]
  by (simp add: get_disbursement_vouchers_for_month_def ex_env_def datetime_date_def fits_c_int_def
      days_in_month_def exec_all_def matches_def stmt_where_def select_DisbursementVoucher_def ex_store_def
      get_db_session_def ex_voucher_def new_DisbursementVoucher_def)

text \<open>
  Claim C4, as stated, fails when the filter supplied is the empty string: the list of
  March 2024 for school 5 then holds a voucher linked to \<open>supplies\<close> and a voucher
  linked to no category, neither of which matches the empty string.
\<close>

theorem list_for_month_counterexample:
  "map_sum id (map rs_linkedLiquidationCategory)
     (fst (get_disbursement_vouchers_for_month ex_env 5 2024 3 (get_db_session ex_store)
             ''auditor'' (Some [])))
   = Inr [Some ''supplies'', None]"
  by (simp add: get_disbursement_vouchers_for_month_def ex_env_def datetime_date_def fits_c_int_def
      days_in_month_def exec_all_def matches_def stmt_where_def select_DisbursementVoucher_def
      ex_store_def get_db_session_def ex_voucher_def new_DisbursementVoucher_def
      build_response_def)

text \<open>
  Claim C4, amended. For a caller that passes the read-permission check and a valid
  (year, month), the list operation returns, in store order, the responses of exactly
  the vouchers whose parent is the first day of the month and whose school is the given
  one; a non-empty \<open>linked_category\<close> narrows them to the vouchers whose linked
  liquidation category is that very string, and an empty one narrows nothing.
\<close>

theorem list_for_month:
  assumes "get_user env token = Inr user"
    and "verify_user_permission env user ''reports:local:read'' = Inr ()"
    and "datetime_date year month 1 = Inr parent_date"
  shows "fst (get_disbursement_vouchers_for_month env school_id year month (get_db_session d)
                token linked_category) =
         Inr (map (build_response (get_db_session d))
                (filter (\<lambda>v. dv_parent v = Date year month 1 \<and> dv_schoolId v = school_id
                              \<and> (case linked_category of
                                    None \<Rightarrow> True
                                  | Some c \<Rightarrow> c = [] \<or> dv_linkedLiquidationCategory v = Some c))
                   (tbl_vouchers d)))"
proof -
  from datetime_date_Inr [OF assms(3)] have pd: "parent_date = Date year month 1" by simp
  have "filter (matches
           (case linked_category of
              None \<Rightarrow> stmt_where select_DisbursementVoucher
                        [parent_eq (Date year month 1), schoolId_eq school_id]
            | Some c \<Rightarrow>
                if c = [] then stmt_where select_DisbursementVoucher
                        [parent_eq (Date year month 1), schoolId_eq school_id]
                else stmt_where (stmt_where select_DisbursementVoucher
                        [parent_eq (Date year month 1), schoolId_eq school_id])
                       [linkedLiquidationCategory_eq c])) (tbl_vouchers d)
        = filter (\<lambda>v. dv_parent v = Date year month 1 \<and> dv_schoolId v = school_id
                              \<and> (case linked_category of
                                    None \<Rightarrow> True
                                  | Some c \<Rightarrow> c = [] \<or> dv_linkedLiquidationCategory v = Some c))
                   (tbl_vouchers d)"
    by (rule filter_cong)
      (auto simp: matches_def stmt_where_def select_DisbursementVoucher_def
        split: option.splits)
  then show ?thesis
    unfolding get_disbursement_vouchers_for_month_def
    by (simp add: assms(1,2) assms(3) [unfolded pd] Let_def exec_all_def get_db_session_def)
qed

theorem list_for_month_witness:
  "get_user ex_env ''auditor'' = Inr (User ''auditor'')
   \<and> verify_user_permission ex_env (User ''auditor'') ''reports:local:read'' = Inr ()
   \<and> datetime_date 2024 3 1 = Inr (Date 2024 3 1)
   \<and> fst (get_disbursement_vouchers_for_month ex_env 5 2024 3 (get_db_session ex_store)
            ''auditor'' (Some ''supplies''))
     = Inr [build_response (get_db_session ex_store) (ex_voucher 15 (Some ''supplies''))]"
proof -
  have u: "get_user ex_env ''auditor'' = Inr (User ''auditor'')"
    by (simp add: ex_env_def)
  have p: "verify_user_permission ex_env (User ''auditor'') ''reports:local:read'' = Inr ()"
    by (simp add: ex_env_def)
  have v: "datetime_date 2024 3 1 = Inr (Date 2024 3 1)"
    by (simp add: datetime_date_def fits_c_int_def days_in_month_def)
  show ?thesis
    using u p v list_for_month [OF u p v, of 5 ex_store "Some ''supplies''"]
    by (simp add: ex_store_def ex_voucher_def new_DisbursementVoucher_def)
qed

text \<open>
  Claim C5, as stated, fails on the class of the error: for 30 February 2024 both
  operations raise the \<open>ValueError\<close> of the date constructor, which no handler turns
  into a client-facing validation error, so it leaves the endpoint as a server error
  (500), not as a 422.
\<close>

theorem out_of_range_day_counterexample:
  "fst (get_disbursement_voucher ex_env 5 2024 2 30 (get_db_session ex_store) ''clerk'')
     = Inl ValueError
   \<and> map_sum response_status id
       (fst (get_disbursement_voucher ex_env 5 2024 2 30 (get_db_session ex_store) ''clerk''))
     = Inl 500
   \<and> fst (create_or_update_disbursement_voucher ex_env 5 2024 2 30 ex_request
            (get_db_session ex_store) ''clerk'') = Inl ValueError
   \<and> map_sum response_status id
       (fst (create_or_update_disbursement_voucher ex_env 5 2024 2 30 ex_request
            (get_db_session ex_store) ''clerk''))
     = Inl 500"
  by (simp add: get_disbursement_voucher_def create_or_update_disbursement_voucher_def
      ex_env_def datetime_date_def fits_c_int_def days_in_month_def is_leap_def)

text \<open>
  Claim C5, amended. For a resolved caller holding the permission of the operation and a
  day out of range for the month, the upsert and the get operation fail at date
  construction with an exception that nothing translates, so that it leaves the endpoint
  as a server error (status 500), whatever the store holds, and return the session
  unchanged: nothing is read from the voucher tables and nothing is persisted. The
  exception is the \<open>ValueError\<close> of the date constructor when year, month and day fit a C
  int, as for 30 February; it is its \<open>OverflowError\<close> when the year or the month does not
  fit, or when they are a valid month and the day does not fit.
\<close>

theorem out_of_range_day_fails:
  assumes "\<not> (1 \<le> date \<and> date \<le> days_in_month year month)"
    and "get_user env token = Inr user"
  shows "(verify_user_permission env user ''reports:local:write'' = Inr () \<longrightarrow>
            create_or_update_disbursement_voucher env school_id year month date request db
              token
            = (Inl (if fits_c_int year \<and> fits_c_int month
                       \<and> (fits_c_int date
                           \<or> \<not> (1 \<le> year \<and> year \<le> 9999 \<and> 1 \<le> month \<and> month \<le> 12))
                    then ValueError else OverflowError), db)
            \<and> map_sum response_status id
                (fst (create_or_update_disbursement_voucher env school_id year month date
                        request db token)) = Inl 500)
         \<and> (verify_user_permission env user ''reports:local:read'' = Inr () \<longrightarrow>
            get_disbursement_voucher env school_id year month date db token
            = (Inl (if fits_c_int year \<and> fits_c_int month
                       \<and> (fits_c_int date
                           \<or> \<not> (1 \<le> year \<and> year \<le> 9999 \<and> 1 \<le> month \<and> month \<le> 12))
                    then ValueError else OverflowError), db)
            \<and> map_sum response_status id
                (fst (get_disbursement_voucher env school_id year month date db token))
              = Inl 500)"
proof -
  let ?E = "if fits_c_int year \<and> fits_c_int month
               \<and> (fits_c_int date
                   \<or> \<not> (1 \<le> year \<and> year \<le> 9999 \<and> 1 \<le> month \<and> month \<le> 12))
            then ValueError else OverflowError"
  have one: "fits_c_int 1" by (simp add: fits_c_int_def)
  have dim: "1 \<le> days_in_month year month"
    using days_in_month_ge [of year month] by simp
  have first: "datetime_date year month 1 =
      (if \<not> (fits_c_int year \<and> fits_c_int month) then Inl OverflowError
       else if \<not> (1 \<le> year \<and> year \<le> 9999 \<and> 1 \<le> month \<and> month \<le> 12) then Inl ValueError
       else Inr (Date year month 1))"
    using dim by (simp add: datetime_date_def one)
  have exact: "datetime_date year month date =
      (if \<not> (fits_c_int year \<and> fits_c_int month \<and> fits_c_int date) then Inl OverflowError
       else Inl ValueError)"
    using assms(1) by (simp add: datetime_date_def)
  have w: "verify_user_permission env user ''reports:local:write'' = Inr () \<Longrightarrow>
           create_or_update_disbursement_voucher env school_id year month date request db
             token = (Inl ?E, db)"
    by (simp add: create_or_update_disbursement_voucher_def assms(2) first exact)
  have r: "verify_user_permission env user ''reports:local:read'' = Inr () \<Longrightarrow>
           get_disbursement_voucher env school_id year month date db token = (Inl ?E, db)"
    by (simp add: get_disbursement_voucher_def assms(2) first exact)
  have st: "response_status ?E = 500" by simp
  show ?thesis
  proof (intro conjI impI)
    assume a: "verify_user_permission env user ''reports:local:write'' = Inr ()"
    show "create_or_update_disbursement_voucher env school_id year month date request db
            token = (Inl ?E, db)" by (rule w [OF a])
    show "map_sum response_status id
            (fst (create_or_update_disbursement_voucher env school_id year month date
                    request db token)) = Inl 500"
      by (simp only: w [OF a] fst_conv map_sum.simps st)
  next
    assume a: "verify_user_permission env user ''reports:local:read'' = Inr ()"
    show "get_disbursement_voucher env school_id year month date db token = (Inl ?E, db)"
      by (rule r [OF a])
    show "map_sum response_status id
            (fst (get_disbursement_voucher env school_id year month date db token)) = Inl 500"
      by (simp only: r [OF a] fst_conv map_sum.simps st)
  qed
qed

theorem out_of_range_day_fails_witness:
  "\<not> (1 \<le> (30::int) \<and> 30 \<le> days_in_month 2024 2)
   \<and> \<not> (1 \<le> (2147483648::int) \<and> 2147483648 \<le> days_in_month 2024 1)
   \<and> get_user ex_env ''clerk'' = Inr (User ''clerk'')
   \<and> create_or_update_disbursement_voucher ex_env 5 2024 2 30 ex_request
        (get_db_session ex_store) ''clerk'' = (Inl ValueError, get_db_session ex_store)
   \<and> get_disbursement_voucher ex_env 5 2024 2 30 (get_db_session ex_store) ''clerk''
        = (Inl ValueError, get_db_session ex_store)
   \<and> get_disbursement_voucher ex_env 5 2024 1 2147483648 (get_db_session ex_store) ''clerk''
        = (Inl OverflowError, get_db_session ex_store)
   \<and> map_sum response_status id
        (fst (get_disbursement_voucher ex_env 5 2024 1 2147483648 (get_db_session ex_store)
                ''clerk'')) = Inl 500"
proof -
  have d: "\<not> (1 \<le> (30::int) \<and> 30 \<le> days_in_month 2024 2)"
    by (simp add: days_in_month_def is_leap_def)
  have d': "\<not> (1 \<le> (2147483648::int) \<and> 2147483648 \<le> days_in_month 2024 1)"
    by (simp add: days_in_month_def)
  have u: "get_user ex_env ''clerk'' = Inr (User ''clerk'')"
    by (simp add: ex_env_def)
  have w: "verify_user_permission ex_env (User ''clerk'') ''reports:local:write'' = Inr ()"
    and r: "verify_user_permission ex_env (User ''clerk'') ''reports:local:read'' = Inr ()"
    by (simp_all add: ex_env_def)
  show ?thesis
    using d d' u
      out_of_range_day_fails [OF d u, of 5 ex_request "get_db_session ex_store"]
      out_of_range_day_fails [OF d' u, of 5 ex_request "get_db_session ex_store"]
    by (simp add: w r fits_c_int_def)
qed

text \<open>
  Claim C6. A successful upsert never writes a report status taken from the payload:
  the report statuses of all stored vouchers are the ones they had, followed by the
  default of the class when the upsert created the voucher, and the status in the
  response is the stored one. Neither depends on the request, which has no such field.
\<close>

theorem report_status_untouched:
  assumes "get_user env token = Inr user"
    and "verify_user_permission env user ''reports:local:write'' = Inr ()"
    and "datetime_date year month date = Inr voucher_date"
  shows "map dv_reportStatus
           (tbl_vouchers (committed (snd (create_or_update_disbursement_voucher env school_id
              year month date request (get_db_session d) token))))
         = map dv_reportStatus (tbl_vouchers d)
           @ (case find (\<lambda>v. dv_parent v = Date year month 1
                              \<and> dv_date v = Date year month date
                              \<and> dv_schoolId v = school_id) (tbl_vouchers d) of
                None \<Rightarrow> [default_reportStatus env]
              | Some row \<Rightarrow> [])
         \<and> map_sum id rs_reportStatus
             (fst (create_or_update_disbursement_voucher env school_id year month date request
                (get_db_session d) token))
           = Inr (case find (\<lambda>v. dv_parent v = Date year month 1
                              \<and> dv_date v = Date year month date
                              \<and> dv_schoolId v = school_id) (tbl_vouchers d) of
                    None \<Rightarrow> default_reportStatus env
                  | Some row \<Rightarrow> dv_reportStatus row)"
proof -
  from upsert_result [OF assms, of school_id request d]
  obtain h d' where
    run: "create_or_update_disbursement_voucher env school_id year month date request
       (get_db_session d) token
       = (Inr (build_response (get_db_session d') (tbl_vouchers d' ! h)), get_db_session d')"
    and row: "tbl_vouchers d' ! h =
         update_voucher_fields request
           (case find (\<lambda>v. dv_parent v = Date year month 1 \<and> dv_date v = Date year month date
                          \<and> dv_schoolId v = school_id) (tbl_vouchers d) of
              Some row \<Rightarrow> row
            | None \<Rightarrow> new_DisbursementVoucher env (Date year month 1) (Date year month date)
                        school_id)"
    and tv: "tbl_vouchers d' =
         (case first_index (\<lambda>v. dv_parent v = Date year month 1
                          \<and> dv_date v = Date year month date
                          \<and> dv_schoolId v = school_id) (tbl_vouchers d) of
            Some i \<Rightarrow> (tbl_vouchers d)[i := update_voucher_fields request (tbl_vouchers d ! i)]
          | None \<Rightarrow> tbl_vouchers d @
                     [update_voucher_fields request
                        (new_DisbursementVoucher env (Date year month 1)
                           (Date year month date) school_id)])"
    by blast
  have stored: "map dv_reportStatus (tbl_vouchers d')
         = map dv_reportStatus (tbl_vouchers d)
           @ (case find (\<lambda>v. dv_parent v = Date year month 1
                              \<and> dv_date v = Date year month date
                              \<and> dv_schoolId v = school_id) (tbl_vouchers d) of
                None \<Rightarrow> [default_reportStatus env]
              | Some row \<Rightarrow> [])"
    by (simp add: tv find_first_index map_update update_voucher_fields_key
        new_DisbursementVoucher_def map_update_same split: option.splits)
  have sent: "dv_reportStatus (tbl_vouchers d' ! h)
         = (case find (\<lambda>v. dv_parent v = Date year month 1
                              \<and> dv_date v = Date year month date
                              \<and> dv_schoolId v = school_id) (tbl_vouchers d) of
                    None \<Rightarrow> default_reportStatus env
                  | Some row \<Rightarrow> dv_reportStatus row)"
    by (simp add: row update_voucher_fields_key new_DisbursementVoucher_def
        split: option.splits)
  show ?thesis
    unfolding run
    by (simp add: stored sent get_db_session_def build_response_def)
qed

theorem report_status_untouched_witness:
  "get_user ex_env ''clerk'' = Inr (User ''clerk'')
   \<and> verify_user_permission ex_env (User ''clerk'') ''reports:local:write'' = Inr ()
   \<and> datetime_date 2024 3 15 = Inr (Date 2024 3 15)
   \<and> map dv_reportStatus
       (tbl_vouchers (committed (snd (create_or_update_disbursement_voucher ex_env 5
          2024 3 15 ex_request (get_db_session ex_store) ''clerk''))))
     = [Approved, Approved]
   \<and> map dv_reportStatus
       (tbl_vouchers (committed (snd (create_or_update_disbursement_voucher ex_env 5
          2024 3 15 ex_request (get_db_session ex_empty) ''clerk''))))
     = [Draft]"
proof -
  have u: "get_user ex_env ''clerk'' = Inr (User ''clerk'')"
    by (simp add: ex_env_def)
  have p: "verify_user_permission ex_env (User ''clerk'') ''reports:local:write'' = Inr ()"
    by (simp add: ex_env_def)
  have v: "datetime_date 2024 3 15 = Inr (Date 2024 3 15)"
    by (simp add: datetime_date_def fits_c_int_def days_in_month_def)
  show ?thesis
    using u p v
      report_status_untouched [OF u p v, of 5 ex_request ex_store]
      report_status_untouched [OF u p v, of 5 ex_request ex_empty]
    by (simp add: ex_store_def ex_empty_def ex_voucher_def new_DisbursementVoucher_def
        ex_env_def)
qed

text \<open>
  Claim C1. For a valid date, a caller allowed to write and a caller allowed to read,
  one upsert followed by a get of the same key succeeds, and the response of the get is
  the response the upsert sent: its payment mode, payee, optional fields, certification
  flags, approver and check, bank, ADA and JEV references are those of the payload, and
  its report status is the one the store holds (the status the voucher had, or the
  default of a new voucher).
\<close>

theorem upsert_then_get_header:
  assumes "get_user env token = Inr user"
    and "verify_user_permission env user ''reports:local:write'' = Inr ()"
    and "datetime_date year month date = Inr voucher_date"
    and "get_user env token' = Inr user'"
    and "verify_user_permission env user' ''reports:local:read'' = Inr ()"
  shows "\<exists>sent s resp.
     create_or_update_disbursement_voucher env school_id year month date request
       (get_db_session d) token = (Inr sent, s)
     \<and> get_disbursement_voucher env school_id year month date (get_db_session (committed s))
         token' = (Inr resp, get_db_session (committed s))
     \<and> resp = sent
     \<and> rs_modeOfPayment resp = rq_modeOfPayment request
     \<and> rs_payee resp = rq_payee request
     \<and> rs_tinOrEmployeeNo resp = rq_tinOrEmployeeNo request
     \<and> rs_responsibilityCenter resp = rq_responsibilityCenter request
     \<and> rs_orsbursNo resp = rq_orsbursNo request
     \<and> rs_address resp = rq_address request
     \<and> rs_linkedLiquidationCategory resp = rq_linkedLiquidationCategory request
     \<and> rs_certifiedCashAvailable resp = rq_certifiedCashAvailable request
     \<and> rs_certifiedSupportingDocsComplete resp = rq_certifiedSupportingDocsComplete request
     \<and> rs_certifiedSubjectToDebitAccount resp = rq_certifiedSubjectToDebitAccount request
     \<and> rs_approvedBy resp = rq_approvedBy request
     \<and> rs_checkNo resp = rq_checkNo request
     \<and> rs_bankNameAndAccountNo resp = rq_bankNameAndAccountNo request
     \<and> rs_adaNo resp = rq_adaNo request
     \<and> rs_jevNo resp = rq_jevNo request
     \<and> rs_reportStatus resp =
         (case find (\<lambda>v. dv_parent v = Date year month 1 \<and> dv_date v = Date year month date
                          \<and> dv_schoolId v = school_id) (tbl_vouchers d) of
            None \<Rightarrow> default_reportStatus env
          | Some row \<Rightarrow> dv_reportStatus row)"
proof -
  from upsert_result [OF assms(1-3), of school_id request d]
  obtain h d' where
    run: "create_or_update_disbursement_voucher env school_id year month date request
       (get_db_session d) token
       = (Inr (build_response (get_db_session d') (tbl_vouchers d' ! h)), get_db_session d')"
    and idx: "first_index (\<lambda>v. dv_parent v = Date year month 1
                  \<and> dv_date v = Date year month date
                  \<and> dv_schoolId v = school_id) (tbl_vouchers d') = Some h"
    and row: "tbl_vouchers d' ! h =
         update_voucher_fields request
           (case find (\<lambda>v. dv_parent v = Date year month 1 \<and> dv_date v = Date year month date
                          \<and> dv_schoolId v = school_id) (tbl_vouchers d) of
              Some row \<Rightarrow> row
            | None \<Rightarrow> new_DisbursementVoucher env (Date year month 1) (Date year month date)
                        school_id)"
    by blast
  have found: "find (\<lambda>v. dv_parent v = Date year month 1 \<and> dv_date v = Date year month date
                 \<and> dv_schoolId v = school_id) (tbl_vouchers d') = Some (tbl_vouchers d' ! h)"
    by (simp add: find_first_index idx)
  have got: "get_disbursement_voucher env school_id year month date (get_db_session d') token'
             = (Inr (build_response (get_db_session d') (tbl_vouchers d' ! h)),
                get_db_session d')"
    by (simp add: get_characterisation [OF assms(4,5,3)] get_db_session_def found)
  have c: "committed (get_db_session d') = d'"
    by (simp add: get_db_session_def)
  have status: "dv_reportStatus (tbl_vouchers d' ! h) =
         (case find (\<lambda>v. dv_parent v = Date year month 1 \<and> dv_date v = Date year month date
                          \<and> dv_schoolId v = school_id) (tbl_vouchers d) of
            None \<Rightarrow> default_reportStatus env
          | Some row \<Rightarrow> dv_reportStatus row)"
    by (simp add: row update_voucher_fields_key new_DisbursementVoucher_def
        split: option.splits)
  have header:
    "dv_modeOfPayment (tbl_vouchers d' ! h) = rq_modeOfPayment request"
    "dv_payee (tbl_vouchers d' ! h) = rq_payee request"
    "dv_tinOrEmployeeNo (tbl_vouchers d' ! h) = rq_tinOrEmployeeNo request"
    "dv_responsibilityCenter (tbl_vouchers d' ! h) = rq_responsibilityCenter request"
    "dv_orsbursNo (tbl_vouchers d' ! h) = rq_orsbursNo request"
    "dv_address (tbl_vouchers d' ! h) = rq_address request"
    "dv_linkedLiquidationCategory (tbl_vouchers d' ! h) = rq_linkedLiquidationCategory request"
    "dv_certifiedCashAvailable (tbl_vouchers d' ! h) = rq_certifiedCashAvailable request"
    "dv_certifiedSupportingDocsComplete (tbl_vouchers d' ! h)
       = rq_certifiedSupportingDocsComplete request"
    "dv_certifiedSubjectToDebitAccount (tbl_vouchers d' ! h)
       = rq_certifiedSubjectToDebitAccount request"
    "dv_approvedBy (tbl_vouchers d' ! h) = rq_approvedBy request"
    "dv_checkNo (tbl_vouchers d' ! h) = rq_checkNo request"
    "dv_bankNameAndAccountNo (tbl_vouchers d' ! h) = rq_bankNameAndAccountNo request"
    "dv_adaNo (tbl_vouchers d' ! h) = rq_adaNo request"
    "dv_jevNo (tbl_vouchers d' ! h) = rq_jevNo request"
    by (simp_all only: row update_voucher_fields_header)
  show ?thesis
    apply (rule exI [of _ "build_response (get_db_session d') (tbl_vouchers d' ! h)"])
    apply (rule exI [of _ "get_db_session d'"])
    apply (rule exI [of _ "build_response (get_db_session d') (tbl_vouchers d' ! h)"])
    apply (simp only: run c got simp_thms)
    apply (simp add: build_response_def header status)
    done
qed

theorem upsert_then_get_header_witness:
  "get_user ex_env ''clerk'' = Inr (User ''clerk'')
   \<and> verify_user_permission ex_env (User ''clerk'') ''reports:local:write'' = Inr ()
   \<and> datetime_date 2024 3 15 = Inr (Date 2024 3 15)
   \<and> get_user ex_env ''auditor'' = Inr (User ''auditor'')
   \<and> verify_user_permission ex_env (User ''auditor'') ''reports:local:read'' = Inr ()
   \<and> (\<exists>sent s resp.
        create_or_update_disbursement_voucher ex_env 5 2024 3 15 ex_request
          (get_db_session ex_empty) ''clerk'' = (Inr sent, s)
        \<and> get_disbursement_voucher ex_env 5 2024 3 15 (get_db_session (committed s))
            ''auditor'' = (Inr resp, get_db_session (committed s))
        \<and> rs_payee resp = ''Jane Doe''
        \<and> rs_checkNo resp = Some ''0042''
        \<and> rs_reportStatus resp = Draft)"
proof -
  have u: "get_user ex_env ''clerk'' = Inr (User ''clerk'')"
    by (simp add: ex_env_def)
  have p: "verify_user_permission ex_env (User ''clerk'') ''reports:local:write'' = Inr ()"
    by (simp add: ex_env_def)
  have v: "datetime_date 2024 3 15 = Inr (Date 2024 3 15)"
    by (simp add: datetime_date_def fits_c_int_def days_in_month_def)
  have u': "get_user ex_env ''auditor'' = Inr (User ''auditor'')"
    by (simp add: ex_env_def)
  have p': "verify_user_permission ex_env (User ''auditor'') ''reports:local:read'' = Inr ()"
    by (simp add: ex_env_def)
  from upsert_then_get_header [OF u p v u' p', of 5 ex_request ex_empty]
  obtain sent s resp where
    "create_or_update_disbursement_voucher ex_env 5 2024 3 15 ex_request
          (get_db_session ex_empty) ''clerk'' = (Inr sent, s)"
    "get_disbursement_voucher ex_env 5 2024 3 15 (get_db_session (committed s))
            ''auditor'' = (Inr resp, get_db_session (committed s))"
    "rs_payee resp = rq_payee ex_request"
    "rs_checkNo resp = rq_checkNo ex_request"
    "rs_reportStatus resp =
         (case find (\<lambda>v. dv_parent v = Date 2024 3 1 \<and> dv_date v = Date 2024 3 15
                          \<and> dv_schoolId v = 5) (tbl_vouchers ex_empty) of
            None \<Rightarrow> default_reportStatus ex_env
          | Some row \<Rightarrow> dv_reportStatus row)"
    by blast
  then have "\<exists>sent s resp.
        create_or_update_disbursement_voucher ex_env 5 2024 3 15 ex_request
          (get_db_session ex_empty) ''clerk'' = (Inr sent, s)
        \<and> get_disbursement_voucher ex_env 5 2024 3 15 (get_db_session (committed s))
            ''auditor'' = (Inr resp, get_db_session (committed s))
        \<and> rs_payee resp = ''Jane Doe''
        \<and> rs_checkNo resp = Some ''0042''
        \<and> rs_reportStatus resp = Draft"
    by (simp add: ex_request_def ex_empty_def ex_env_def)
  with u p v u' p' show ?thesis by simp
qed

text \<open>
  Claim C2. Two upserts of the same key by callers allowed to write, with any two
  payloads: after the second, the entries, accounting entries and certifiers stored
  under the key are exactly the rows made from the second payload, one per submitted
  item and in its order, so no row of the first upsert is left, merged or repeated; the
  rows of other keys are those the store had at the start; the voucher table keeps its
  length and order, the voucher of the key being overwritten in place: each of its
  fifteen header fields is the second payload's, and its report status is kept; and the
  response lists the second payload's children.
\<close>

theorem second_upsert_replaces_children:
  assumes "get_user env token = Inr user"
    and "verify_user_permission env user ''reports:local:write'' = Inr ()"
    and "datetime_date year month date = Inr voucher_date"
    and "get_user env token' = Inr user'"
    and "verify_user_permission env user' ''reports:local:write'' = Inr ()"
  shows "\<exists>d1 sent d2 h.
     snd (create_or_update_disbursement_voucher env school_id year month date request
            (get_db_session d) token) = get_db_session d1
     \<and> create_or_update_disbursement_voucher env school_id year month date request'
         (get_db_session d1) token' = (Inr sent, get_db_session d2)
     \<and> first_index (\<lambda>v. dv_parent v = Date year month 1 \<and> dv_date v = Date year month date
                          \<and> dv_schoolId v = school_id) (tbl_vouchers d1) = Some h
     \<and> tbl_vouchers d2 = (tbl_vouchers d1)[h := update_voucher_fields request'
                                                  (tbl_vouchers d1 ! h)]
     \<and> filter (\<lambda>e. en_parent e = Date year month 1
                   \<and> datetime_day (en_date e) = Date year month date
                   \<and> en_schoolId e = school_id) (tbl_entries d2)
         = map (new_entry (Date year month 1) (Date year month date) school_id)
             (rq_entries request')
     \<and> filter (\<lambda>e. ae_parent e = Date year month 1
                   \<and> datetime_day (ae_date e) = Date year month date
                   \<and> ae_schoolId e = school_id) (tbl_accounting_entries d2)
         = map (new_accounting_entry (Date year month 1) (Date year month date) school_id)
             (rq_accountingEntries request')
     \<and> filter (\<lambda>c. cb_parent c = Date year month 1 \<and> cb_date c = Date year month date
                   \<and> cb_schoolId c = school_id) (tbl_certified_by d2)
         = map (new_certified_by (Date year month 1) (Date year month date) school_id)
             (rq_certifiedBy request')
     \<and> filter (\<lambda>e. \<not> (en_parent e = Date year month 1
                   \<and> datetime_day (en_date e) = Date year month date
                   \<and> en_schoolId e = school_id)) (tbl_entries d2)
         = filter (\<lambda>e. \<not> (en_parent e = Date year month 1
                   \<and> datetime_day (en_date e) = Date year month date
                   \<and> en_schoolId e = school_id)) (tbl_entries d)
     \<and> filter (\<lambda>e. \<not> (ae_parent e = Date year month 1
                   \<and> datetime_day (ae_date e) = Date year month date
                   \<and> ae_schoolId e = school_id)) (tbl_accounting_entries d2)
         = filter (\<lambda>e. \<not> (ae_parent e = Date year month 1
                   \<and> datetime_day (ae_date e) = Date year month date
                   \<and> ae_schoolId e = school_id)) (tbl_accounting_entries d)
     \<and> filter (\<lambda>c. \<not> (cb_parent c = Date year month 1 \<and> cb_date c = Date year month date
                   \<and> cb_schoolId c = school_id)) (tbl_certified_by d2)
         = filter (\<lambda>c. \<not> (cb_parent c = Date year month 1 \<and> cb_date c = Date year month date
                   \<and> cb_schoolId c = school_id)) (tbl_certified_by d)
     \<and> rs_entries sent = rq_entries request'
     \<and> rs_accountingEntries sent = rq_accountingEntries request'
     \<and> rs_certifiedBy sent = rq_certifiedBy request'
     \<and> h < length (tbl_vouchers d1)
     \<and> length (tbl_vouchers d2) = length (tbl_vouchers d1)
     \<and> dv_modeOfPayment (tbl_vouchers d2 ! h) = rq_modeOfPayment request'
     \<and> dv_payee (tbl_vouchers d2 ! h) = rq_payee request'
     \<and> dv_tinOrEmployeeNo (tbl_vouchers d2 ! h) = rq_tinOrEmployeeNo request'
     \<and> dv_responsibilityCenter (tbl_vouchers d2 ! h) = rq_responsibilityCenter request'
     \<and> dv_orsbursNo (tbl_vouchers d2 ! h) = rq_orsbursNo request'
     \<and> dv_address (tbl_vouchers d2 ! h) = rq_address request'
     \<and> dv_linkedLiquidationCategory (tbl_vouchers d2 ! h) = rq_linkedLiquidationCategory request'
     \<and> dv_certifiedCashAvailable (tbl_vouchers d2 ! h) = rq_certifiedCashAvailable request'
     \<and> dv_certifiedSupportingDocsComplete (tbl_vouchers d2 ! h) = rq_certifiedSupportingDocsComplete request'
     \<and> dv_certifiedSubjectToDebitAccount (tbl_vouchers d2 ! h) = rq_certifiedSubjectToDebitAccount request'
     \<and> dv_approvedBy (tbl_vouchers d2 ! h) = rq_approvedBy request'
     \<and> dv_checkNo (tbl_vouchers d2 ! h) = rq_checkNo request'
     \<and> dv_bankNameAndAccountNo (tbl_vouchers d2 ! h) = rq_bankNameAndAccountNo request'
     \<and> dv_adaNo (tbl_vouchers d2 ! h) = rq_adaNo request'
     \<and> dv_jevNo (tbl_vouchers d2 ! h) = rq_jevNo request'
     \<and> dv_reportStatus (tbl_vouchers d2 ! h) = dv_reportStatus (tbl_vouchers d1 ! h)"
proof -
  let ?K = "\<lambda>v. dv_parent v = Date year month 1 \<and> dv_date v = Date year month date
                          \<and> dv_schoolId v = school_id"
  let ?E = "\<lambda>e. en_parent e = Date year month 1
                   \<and> datetime_day (en_date e) = Date year month date
                   \<and> en_schoolId e = school_id"
  let ?A = "\<lambda>e. ae_parent e = Date year month 1
                   \<and> datetime_day (ae_date e) = Date year month date
                   \<and> ae_schoolId e = school_id"
  let ?C = "\<lambda>c. cb_parent c = Date year month 1 \<and> cb_date c = Date year month date
                   \<and> cb_schoolId c = school_id"
  let ?ne = "new_entry (Date year month 1) (Date year month date) school_id"
  let ?na = "new_accounting_entry (Date year month 1) (Date year month date) school_id"
  let ?nc = "new_certified_by (Date year month 1) (Date year month date) school_id"
  from upsert_result [OF assms(1-3), of school_id request d]
  obtain h d1 where
    run1: "create_or_update_disbursement_voucher env school_id year month date request
       (get_db_session d) token
       = (Inr (build_response (get_db_session d1) (tbl_vouchers d1 ! h)), get_db_session d1)"
    and idx1: "first_index ?K (tbl_vouchers d1) = Some h"
    and e1: "tbl_entries d1 =
         (case find ?K (tbl_vouchers d) of
            Some row \<Rightarrow> filter (\<lambda>e. \<not> ?E e) (tbl_entries d)
          | None \<Rightarrow> tbl_entries d) @ map ?ne (rq_entries request)"
    and a1: "tbl_accounting_entries d1 =
         (case find ?K (tbl_vouchers d) of
            Some row \<Rightarrow> filter (\<lambda>e. \<not> ?A e) (tbl_accounting_entries d)
          | None \<Rightarrow> tbl_accounting_entries d) @ map ?na (rq_accountingEntries request)"
    and c1: "tbl_certified_by d1 =
         (case find ?K (tbl_vouchers d) of
            Some row \<Rightarrow> filter (\<lambda>c. \<not> ?C c) (tbl_certified_by d)
          | None \<Rightarrow> tbl_certified_by d) @ map ?nc (rq_certifiedBy request)"
    by blast
  have found1: "find ?K (tbl_vouchers d1) = Some (tbl_vouchers d1 ! h)"
    by (simp add: find_first_index idx1)
  from upsert_result [OF assms(4,5,3), of school_id request' d1]
  obtain h2 d2 where
    run2: "create_or_update_disbursement_voucher env school_id year month date request'
       (get_db_session d1) token'
       = (Inr (build_response (get_db_session d2) (tbl_vouchers d2 ! h2)), get_db_session d2)"
    and idx2: "first_index ?K (tbl_vouchers d2) = Some h2"
    and tv2: "tbl_vouchers d2 =
         (case first_index ?K (tbl_vouchers d1) of
            Some i \<Rightarrow> (tbl_vouchers d1)[i := update_voucher_fields request' (tbl_vouchers d1 ! i)]
          | None \<Rightarrow> tbl_vouchers d1 @
                     [update_voucher_fields request'
                        (new_DisbursementVoucher env (Date year month 1)
                           (Date year month date) school_id)])"
    and e2: "tbl_entries d2 =
         (case find ?K (tbl_vouchers d1) of
            Some row \<Rightarrow> filter (\<lambda>e. \<not> ?E e) (tbl_entries d1)
          | None \<Rightarrow> tbl_entries d1) @ map ?ne (rq_entries request')"
    and a2: "tbl_accounting_entries d2 =
         (case find ?K (tbl_vouchers d1) of
            Some row \<Rightarrow> filter (\<lambda>e. \<not> ?A e) (tbl_accounting_entries d1)
          | None \<Rightarrow> tbl_accounting_entries d1) @ map ?na (rq_accountingEntries request')"
    and c2: "tbl_certified_by d2 =
         (case find ?K (tbl_vouchers d1) of
            Some row \<Rightarrow> filter (\<lambda>c. \<not> ?C c) (tbl_certified_by d1)
          | None \<Rightarrow> tbl_certified_by d1) @ map ?nc (rq_certifiedBy request')"
    by blast
  have E: "\<And>x. ?E (?ne x)" by (simp add: new_entry_key)
  have A: "\<And>x. ?A (?na x)" by (simp add: new_accounting_entry_key)
  have C: "\<And>x. ?C (?nc x)" by (simp add: new_certified_by_key)
  have e2': "tbl_entries d2 = filter (\<lambda>e. \<not> ?E e) (tbl_entries d1) @ map ?ne (rq_entries request')"
    by (simp add: e2 found1)
  have a2': "tbl_accounting_entries d2 =
      filter (\<lambda>e. \<not> ?A e) (tbl_accounting_entries d1) @ map ?na (rq_accountingEntries request')"
    by (simp add: a2 found1)
  have c2': "tbl_certified_by d2 =
      filter (\<lambda>c. \<not> ?C c) (tbl_certified_by d1) @ map ?nc (rq_certifiedBy request')"
    by (simp add: c2 found1)
  have fe: "filter ?E (tbl_entries d2) = map ?ne (rq_entries request')"
    unfolding e2' by (rule filter_replaced(1) [of ?E ?ne, OF E])
  have fa: "filter ?A (tbl_accounting_entries d2) = map ?na (rq_accountingEntries request')"
    unfolding a2' by (rule filter_replaced(1) [of ?A ?na, OF A])
  have fc: "filter ?C (tbl_certified_by d2) = map ?nc (rq_certifiedBy request')"
    unfolding c2' by (rule filter_replaced(1) [of ?C ?nc, OF C])
  have oe1: "filter (\<lambda>e. \<not> ?E e) (tbl_entries d1) = filter (\<lambda>e. \<not> ?E e) (tbl_entries d)"
    unfolding e1
    by (cases "find ?K (tbl_vouchers d)")
      (simp_all only: option.case filter_twice filter_replaced(2,3) [of ?E ?ne, OF E])
  have oa1: "filter (\<lambda>e. \<not> ?A e) (tbl_accounting_entries d1)
             = filter (\<lambda>e. \<not> ?A e) (tbl_accounting_entries d)"
    unfolding a1
    by (cases "find ?K (tbl_vouchers d)")
      (simp_all only: option.case filter_twice filter_replaced(2,3) [of ?A ?na, OF A])
  have oc1: "filter (\<lambda>c. \<not> ?C c) (tbl_certified_by d1)
             = filter (\<lambda>c. \<not> ?C c) (tbl_certified_by d)"
    unfolding c1
    by (cases "find ?K (tbl_vouchers d)")
      (simp_all only: option.case filter_twice filter_replaced(2,3) [of ?C ?nc, OF C])
  have oe: "filter (\<lambda>e. \<not> ?E e) (tbl_entries d2) = filter (\<lambda>e. \<not> ?E e) (tbl_entries d)"
    unfolding e2' by (simp only: filter_replaced(2) [of ?E ?ne, OF E] oe1)
  have oa: "filter (\<lambda>e. \<not> ?A e) (tbl_accounting_entries d2)
            = filter (\<lambda>e. \<not> ?A e) (tbl_accounting_entries d)"
    unfolding a2' by (simp only: filter_replaced(2) [of ?A ?na, OF A] oa1)
  have oc: "filter (\<lambda>c. \<not> ?C c) (tbl_certified_by d2)
            = filter (\<lambda>c. \<not> ?C c) (tbl_certified_by d)"
    unfolding c2' by (simp only: filter_replaced(2) [of ?C ?nc, OF C] oc1)
  from first_index_Some [OF idx2]
  have key2: "dv_parent (tbl_vouchers d2 ! h2) = Date year month 1"
             "dv_date (tbl_vouchers d2 ! h2) = Date year month date"
             "dv_schoolId (tbl_vouchers d2 ! h2) = school_id" by simp_all
  have txn2: "txn (get_db_session d2) = d2" by (simp add: get_db_session_def)
  have re: "rs_entries (build_response (get_db_session d2) (tbl_vouchers d2 ! h2))
            = rq_entries request'"
    by (simp add: build_response_def voucher_entries_def key2 txn2 fe entry_data_roundtrip
        del: map_map)
  have ra: "rs_accountingEntries (build_response (get_db_session d2) (tbl_vouchers d2 ! h2))
            = rq_accountingEntries request'"
    by (simp add: build_response_def voucher_accounting_entries_def key2 txn2 fa
        accounting_entry_data_roundtrip del: map_map)
  have rc: "rs_certifiedBy (build_response (get_db_session d2) (tbl_vouchers d2 ! h2))
            = rq_certifiedBy request'"
    by (simp add: build_response_def voucher_certified_by_def key2 txn2 fc
        certified_by_roundtrip del: map_map)
  have tv2': "tbl_vouchers d2 = (tbl_vouchers d1)[h := update_voucher_fields request'
                                                  (tbl_vouchers d1 ! h)]"
    by (simp add: tv2 idx1)
  from first_index_Some [OF idx1] have hlt: "h < length (tbl_vouchers d1)" by simp
  have len: "length (tbl_vouchers d2) = length (tbl_vouchers d1)"
    by (simp add: tv2')
  have row2: "tbl_vouchers d2 ! h = update_voucher_fields request' (tbl_vouchers d1 ! h)"
    using hlt by (simp add: tv2')
  have hdr:
    "dv_modeOfPayment (tbl_vouchers d2 ! h) = rq_modeOfPayment request'"
    "dv_payee (tbl_vouchers d2 ! h) = rq_payee request'"
    "dv_tinOrEmployeeNo (tbl_vouchers d2 ! h) = rq_tinOrEmployeeNo request'"
    "dv_responsibilityCenter (tbl_vouchers d2 ! h) = rq_responsibilityCenter request'"
    "dv_orsbursNo (tbl_vouchers d2 ! h) = rq_orsbursNo request'"
    "dv_address (tbl_vouchers d2 ! h) = rq_address request'"
    "dv_linkedLiquidationCategory (tbl_vouchers d2 ! h) = rq_linkedLiquidationCategory request'"
    "dv_certifiedCashAvailable (tbl_vouchers d2 ! h) = rq_certifiedCashAvailable request'"
    "dv_certifiedSupportingDocsComplete (tbl_vouchers d2 ! h) = rq_certifiedSupportingDocsComplete request'"
    "dv_certifiedSubjectToDebitAccount (tbl_vouchers d2 ! h) = rq_certifiedSubjectToDebitAccount request'"
    "dv_approvedBy (tbl_vouchers d2 ! h) = rq_approvedBy request'"
    "dv_checkNo (tbl_vouchers d2 ! h) = rq_checkNo request'"
    "dv_bankNameAndAccountNo (tbl_vouchers d2 ! h) = rq_bankNameAndAccountNo request'"
    "dv_adaNo (tbl_vouchers d2 ! h) = rq_adaNo request'"
    "dv_jevNo (tbl_vouchers d2 ! h) = rq_jevNo request'"
    by (simp_all only: row2 update_voucher_fields_header)
  have st: "dv_reportStatus (tbl_vouchers d2 ! h) = dv_reportStatus (tbl_vouchers d1 ! h)"
    by (simp only: row2 update_voucher_fields_key)
  show ?thesis
    apply (rule exI [of _ d1])
    apply (rule exI [of _ "build_response (get_db_session d2) (tbl_vouchers d2 ! h2)"])
    apply (rule exI [of _ d2])
    apply (rule exI [of _ h])
    apply (simp only: run1 run2 snd_conv idx1 tv2' [symmetric] fe fa fc oe oa oc re ra rc
        hlt len hdr st simp_thms)
    done
qed

theorem second_upsert_replaces_children_witness:
  "get_user ex_env ''clerk'' = Inr (User ''clerk'')
   \<and> verify_user_permission ex_env (User ''clerk'') ''reports:local:write'' = Inr ()
   \<and> datetime_date 2024 3 15 = Inr (Date 2024 3 15)
   \<and> (\<exists>d1 sent d2 h.
        snd (create_or_update_disbursement_voucher ex_env 5 2024 3 15 ex_request
               (get_db_session ex_filled) ''clerk'') = get_db_session d1
        \<and> create_or_update_disbursement_voucher ex_env 5 2024 3 15 ex_request2
            (get_db_session d1) ''clerk'' = (Inr sent, get_db_session d2)
        \<and> filter (\<lambda>c. cb_parent c = Date 2024 3 1 \<and> cb_date c = Date 2024 3 15
                      \<and> cb_schoolId c = 5) (tbl_certified_by d2)
            = [new_certified_by (Date 2024 3 1) (Date 2024 3 15) 5 ''u2'',
               new_certified_by (Date 2024 3 1) (Date 2024 3 15) 5 ''u3'']
        \<and> filter (\<lambda>e. en_parent e = Date 2024 3 1
                      \<and> datetime_day (en_date e) = Date 2024 3 15
                      \<and> en_schoolId e = 5) (tbl_entries d2) = []
        \<and> rs_entries sent = []
        \<and> rs_certifiedBy sent = [''u2'', ''u3'']
        \<and> length (tbl_vouchers d2) = length (tbl_vouchers d1)
        \<and> dv_modeOfPayment (tbl_vouchers d2 ! h) = ''Cash''
        \<and> dv_payee (tbl_vouchers d2 ! h) = ''John Roe''
        \<and> dv_tinOrEmployeeNo (tbl_vouchers d2 ! h) = Some ''123''
        \<and> dv_linkedLiquidationCategory (tbl_vouchers d2 ! h) = None
        \<and> dv_certifiedSupportingDocsComplete (tbl_vouchers d2 ! h) = True
        \<and> dv_approvedBy (tbl_vouchers d2 ! h) = Some ''head''
        \<and> dv_checkNo (tbl_vouchers d2 ! h) = None)"
proof -
  have u: "get_user ex_env ''clerk'' = Inr (User ''clerk'')"
    by (simp add: ex_env_def)
  have p: "verify_user_permission ex_env (User ''clerk'') ''reports:local:write'' = Inr ()"
    by (simp add: ex_env_def)
  have v: "datetime_date 2024 3 15 = Inr (Date 2024 3 15)"
    by (simp add: datetime_date_def fits_c_int_def days_in_month_def)
  have rq: "rq_entries ex_request2 = []" "rq_certifiedBy ex_request2 = [''u2'', ''u3'']"
    "rq_modeOfPayment ex_request2 = ''Cash''" "rq_payee ex_request2 = ''John Roe''"
    "rq_tinOrEmployeeNo ex_request2 = Some ''123''"
    "rq_linkedLiquidationCategory ex_request2 = None"
    "rq_certifiedSupportingDocsComplete ex_request2 = True"
    "rq_approvedBy ex_request2 = Some ''head''" "rq_checkNo ex_request2 = None"
    by (simp_all add: ex_request2_def)
  have "\<exists>d1 sent d2 h.
        snd (create_or_update_disbursement_voucher ex_env 5 2024 3 15 ex_request
               (get_db_session ex_filled) ''clerk'') = get_db_session d1
        \<and> create_or_update_disbursement_voucher ex_env 5 2024 3 15 ex_request2
            (get_db_session d1) ''clerk'' = (Inr sent, get_db_session d2)
        \<and> filter (\<lambda>c. cb_parent c = Date 2024 3 1 \<and> cb_date c = Date 2024 3 15
                      \<and> cb_schoolId c = 5) (tbl_certified_by d2)
            = [new_certified_by (Date 2024 3 1) (Date 2024 3 15) 5 ''u2'',
               new_certified_by (Date 2024 3 1) (Date 2024 3 15) 5 ''u3'']
        \<and> filter (\<lambda>e. en_parent e = Date 2024 3 1
                      \<and> datetime_day (en_date e) = Date 2024 3 15
                      \<and> en_schoolId e = 5) (tbl_entries d2) = []
        \<and> rs_entries sent = []
        \<and> rs_certifiedBy sent = [''u2'', ''u3'']
        \<and> length (tbl_vouchers d2) = length (tbl_vouchers d1)
        \<and> dv_modeOfPayment (tbl_vouchers d2 ! h) = ''Cash''
        \<and> dv_payee (tbl_vouchers d2 ! h) = ''John Roe''
        \<and> dv_tinOrEmployeeNo (tbl_vouchers d2 ! h) = Some ''123''
        \<and> dv_linkedLiquidationCategory (tbl_vouchers d2 ! h) = None
        \<and> dv_certifiedSupportingDocsComplete (tbl_vouchers d2 ! h) = True
        \<and> dv_approvedBy (tbl_vouchers d2 ! h) = Some ''head''
        \<and> dv_checkNo (tbl_vouchers d2 ! h) = None"
    using second_upsert_replaces_children [OF u p v u p, of 5 ex_request ex_filled ex_request2,
        unfolded rq list.map]
    by (elim exE conjE, intro exI conjI) assumption+
  with u p v show ?thesis by simp
qed

text \<open>
  Claim C9. After a successful upsert the voucher found under the key has the first day
  of the month as parent, the exact date as date and the given school, and it is the
  voucher the response is built from. Each child table is rows it already had, followed
  by one row per submitted item, and every one of these written rows carries the parent,
  the date and the school of that voucher (an entry and an accounting entry carry the
  date as that day at midnight).
\<close>

theorem upsert_tags_rows_with_key:
  assumes "get_user env token = Inr user"
    and "verify_user_permission env user ''reports:local:write'' = Inr ()"
    and "datetime_date year month date = Inr voucher_date"
  shows "\<exists>sent d' row kept_entries kept_accounting_entries kept_certified_by.
     create_or_update_disbursement_voucher env school_id year month date request
       (get_db_session d) token = (Inr sent, get_db_session d')
     \<and> find (\<lambda>v. dv_parent v = Date year month 1 \<and> dv_date v = Date year month date
                  \<and> dv_schoolId v = school_id) (tbl_vouchers d') = Some row
     \<and> sent = build_response (get_db_session d') row
     \<and> dv_parent row = Date year month 1
     \<and> dv_date row = Date year month date
     \<and> dv_schoolId row = school_id
     \<and> set kept_entries \<subseteq> set (tbl_entries d)
     \<and> set kept_accounting_entries \<subseteq> set (tbl_accounting_entries d)
     \<and> set kept_certified_by \<subseteq> set (tbl_certified_by d)
     \<and> tbl_entries d' = kept_entries
         @ map (new_entry (Date year month 1) (Date year month date) school_id)
             (rq_entries request)
     \<and> tbl_accounting_entries d' = kept_accounting_entries
         @ map (new_accounting_entry (Date year month 1) (Date year month date) school_id)
             (rq_accountingEntries request)
     \<and> tbl_certified_by d' = kept_certified_by
         @ map (new_certified_by (Date year month 1) (Date year month date) school_id)
             (rq_certifiedBy request)
     \<and> list_all (\<lambda>e. en_parent e = dv_parent row
                     \<and> en_date e = Datetime (dv_date row) (Time 0 0 0 0)
                     \<and> en_schoolId e = dv_schoolId row)
         (map (new_entry (Date year month 1) (Date year month date) school_id)
            (rq_entries request))
     \<and> list_all (\<lambda>e. ae_parent e = dv_parent row
                     \<and> ae_date e = Datetime (dv_date row) (Time 0 0 0 0)
                     \<and> ae_schoolId e = dv_schoolId row)
         (map (new_accounting_entry (Date year month 1) (Date year month date) school_id)
            (rq_accountingEntries request))
     \<and> list_all (\<lambda>c. cb_parent c = dv_parent row \<and> cb_date c = dv_date row
                     \<and> cb_schoolId c = dv_schoolId row)
         (map (new_certified_by (Date year month 1) (Date year month date) school_id)
            (rq_certifiedBy request))"
proof -
  let ?K = "\<lambda>v. dv_parent v = Date year month 1 \<and> dv_date v = Date year month date
                          \<and> dv_schoolId v = school_id"
  let ?ne = "new_entry (Date year month 1) (Date year month date) school_id"
  let ?na = "new_accounting_entry (Date year month 1) (Date year month date) school_id"
  let ?nc = "new_certified_by (Date year month 1) (Date year month date) school_id"
  from upsert_result [OF assms, of school_id request d]
  obtain h d' where
    run: "create_or_update_disbursement_voucher env school_id year month date request
       (get_db_session d) token
       = (Inr (build_response (get_db_session d') (tbl_vouchers d' ! h)), get_db_session d')"
    and idx: "first_index ?K (tbl_vouchers d') = Some h"
    and e: "tbl_entries d' =
         (case find ?K (tbl_vouchers d) of
            Some row \<Rightarrow>
              filter (\<lambda>e. \<not> (en_parent e = Date year month 1
                               \<and> datetime_day (en_date e) = Date year month date
                               \<and> en_schoolId e = school_id)) (tbl_entries d)
          | None \<Rightarrow> tbl_entries d) @ map ?ne (rq_entries request)"
    and a: "tbl_accounting_entries d' =
         (case find ?K (tbl_vouchers d) of
            Some row \<Rightarrow>
              filter (\<lambda>e. \<not> (ae_parent e = Date year month 1
                               \<and> datetime_day (ae_date e) = Date year month date
                               \<and> ae_schoolId e = school_id)) (tbl_accounting_entries d)
          | None \<Rightarrow> tbl_accounting_entries d) @ map ?na (rq_accountingEntries request)"
    and c: "tbl_certified_by d' =
         (case find ?K (tbl_vouchers d) of
            Some row \<Rightarrow>
              filter (\<lambda>c. \<not> (cb_parent c = Date year month 1
                               \<and> cb_date c = Date year month date
                               \<and> cb_schoolId c = school_id)) (tbl_certified_by d)
          | None \<Rightarrow> tbl_certified_by d) @ map ?nc (rq_certifiedBy request)"
    by blast
  let ?row = "tbl_vouchers d' ! h"
  have found: "find ?K (tbl_vouchers d') = Some ?row"
    by (simp add: find_first_index idx)
  from first_index_Some [OF idx]
  have key: "dv_parent ?row = Date year month 1" "dv_date ?row = Date year month date"
    "dv_schoolId ?row = school_id" by simp_all
  define ke where "ke = (case find ?K (tbl_vouchers d) of
            Some row \<Rightarrow>
              filter (\<lambda>e. \<not> (en_parent e = Date year month 1
                               \<and> datetime_day (en_date e) = Date year month date
                               \<and> en_schoolId e = school_id)) (tbl_entries d)
          | None \<Rightarrow> tbl_entries d)"
  define ka where "ka = (case find ?K (tbl_vouchers d) of
            Some row \<Rightarrow>
              filter (\<lambda>e. \<not> (ae_parent e = Date year month 1
                               \<and> datetime_day (ae_date e) = Date year month date
                               \<and> ae_schoolId e = school_id)) (tbl_accounting_entries d)
          | None \<Rightarrow> tbl_accounting_entries d)"
  define kc where "kc = (case find ?K (tbl_vouchers d) of
            Some row \<Rightarrow>
              filter (\<lambda>c. \<not> (cb_parent c = Date year month 1
                               \<and> cb_date c = Date year month date
                               \<and> cb_schoolId c = school_id)) (tbl_certified_by d)
          | None \<Rightarrow> tbl_certified_by d)"
  have sub: "set ke \<subseteq> set (tbl_entries d)" "set ka \<subseteq> set (tbl_accounting_entries d)"
    "set kc \<subseteq> set (tbl_certified_by d)"
    by (auto simp: ke_def ka_def kc_def split: option.splits)
  have tabs: "tbl_entries d' = ke @ map ?ne (rq_entries request)"
    "tbl_accounting_entries d' = ka @ map ?na (rq_accountingEntries request)"
    "tbl_certified_by d' = kc @ map ?nc (rq_certifiedBy request)"
    by (simp_all only: e a c ke_def ka_def kc_def)
  show ?thesis
    apply (rule exI [of _ "build_response (get_db_session d') ?row"])
    apply (rule exI [of _ d'])
    apply (rule exI [of _ ?row])
    apply (rule exI [of _ ke])
    apply (rule exI [of _ ka])
    apply (rule exI [of _ kc])
    apply (simp only: run found key sub tabs [symmetric] simp_thms)
    apply (simp add: list_all_iff new_entry_key new_accounting_entry_key
        new_certified_by_key)
    done
qed

theorem upsert_tags_rows_with_key_witness:
  "get_user ex_env ''clerk'' = Inr (User ''clerk'')
   \<and> verify_user_permission ex_env (User ''clerk'') ''reports:local:write'' = Inr ()
   \<and> datetime_date 2024 3 15 = Inr (Date 2024 3 15)
   \<and> (\<exists>sent d' row kept_certified_by.
        create_or_update_disbursement_voucher ex_env 5 2024 3 15 ex_request
          (get_db_session ex_store) ''clerk'' = (Inr sent, get_db_session d')
        \<and> find (\<lambda>v. dv_parent v = Date 2024 3 1 \<and> dv_date v = Date 2024 3 15
                     \<and> dv_schoolId v = 5) (tbl_vouchers d') = Some row
        \<and> dv_parent row = Date 2024 3 1
        \<and> dv_date row = Date 2024 3 15
        \<and> dv_schoolId row = 5
        \<and> set kept_certified_by \<subseteq> set (tbl_certified_by ex_store)
        \<and> tbl_certified_by d' = kept_certified_by
            @ [new_certified_by (Date 2024 3 1) (Date 2024 3 15) 5 ''u1''])"
proof -
  have u: "get_user ex_env ''clerk'' = Inr (User ''clerk'')"
    by (simp add: ex_env_def)
  have p: "verify_user_permission ex_env (User ''clerk'') ''reports:local:write'' = Inr ()"
    by (simp add: ex_env_def)
  have v: "datetime_date 2024 3 15 = Inr (Date 2024 3 15)"
    by (simp add: datetime_date_def fits_c_int_def days_in_month_def)
  from upsert_tags_rows_with_key [OF u p v, of 5 ex_request ex_store]
  obtain sent d' row kept_certified_by where
    "create_or_update_disbursement_voucher ex_env 5 2024 3 15 ex_request
          (get_db_session ex_store) ''clerk'' = (Inr sent, get_db_session d')"
    "find (\<lambda>v. dv_parent v = Date 2024 3 1 \<and> dv_date v = Date 2024 3 15
                     \<and> dv_schoolId v = 5) (tbl_vouchers d') = Some row"
    "dv_parent row = Date 2024 3 1"
    "dv_date row = Date 2024 3 15"
    "dv_schoolId row = 5"
    "set kept_certified_by \<subseteq> set (tbl_certified_by ex_store)"
    "tbl_certified_by d' = kept_certified_by
            @ map (new_certified_by (Date 2024 3 1) (Date 2024 3 15) 5)
                (rq_certifiedBy ex_request)"
    by blast
  moreover have "rq_certifiedBy ex_request = [''u1'']"
    by (simp add: ex_request_def)
  ultimately have "\<exists>sent d' row kept_certified_by.
        create_or_update_disbursement_voucher ex_env 5 2024 3 15 ex_request
          (get_db_session ex_store) ''clerk'' = (Inr sent, get_db_session d')
        \<and> find (\<lambda>v. dv_parent v = Date 2024 3 1 \<and> dv_date v = Date 2024 3 15
                     \<and> dv_schoolId v = 5) (tbl_vouchers d') = Some row
        \<and> dv_parent row = Date 2024 3 1
        \<and> dv_date row = Date 2024 3 15
        \<and> dv_schoolId row = 5
        \<and> set kept_certified_by \<subseteq> set (tbl_certified_by ex_store)
        \<and> tbl_certified_by d' = kept_certified_by
            @ [new_certified_by (Date 2024 3 1) (Date 2024 3 15) 5 ''u1'']"
    by (intro exI [of _ sent] exI [of _ d'] exI [of _ row] exI [of _ kept_certified_by])
      simp
  with u p v show ?thesis by simp
qed

end
